theory Spec2Isabelle
  imports Complex_Main
begin

section \<open>The training loop of src/multilabel/train.py\<close>

text \<open>
  A shallow embedding of \<^verbatim>\<open>train_model\<close>. Conventions:
  \<^item> Python floats and tensor entries are idealised as \<open>real\<close>: rounding and NaN
    entries are not modelled. The one place where IEEE arithmetic decides between a value
    and an exception, the division of a tensor by a Python integer that is zero, is
    modelled by \<open>tfloat\<close>.
  \<^item> The tensors that the model returns and the label tensors that a loader yields are
    two-dimensional, a list of rows (batch dimension first). Unpacking such a tensor
    (lines 84 and 86) gives one-dimensional tensors, so the raw output and the
    predictions of a batch have one or two dimensions. A tensor without rows carries no
    width.
  \<^item> Every raise of the source is a value \<open>Inl e\<close> of the result type \<open>error + 'a\<close>.
  \<^item> The model, optimizer, scheduler and criterion are opaque collaborators: a record of
    functions over a state whose \<open>weights\<close> field is what \<^verbatim>\<open>model.state_dict()\<close>
    returns and \<^verbatim>\<open>model.load_state_dict\<close> overwrites. A deep copy of the state
    dictionary is the value of that field.
  \<^item> \<^verbatim>\<open>dataloaders\<close> has the keys "train" and "val", and every dataset has a length.
  \<^item> Output written with \<^verbatim>\<open>print\<close> and the wall-clock timer are left out, except for
    the raise that building the progress line can cause; the moves to the device
    (\<^verbatim>\<open>.to(device)\<close>, \<^verbatim>\<open>.cpu().detach().numpy()\<close>) change no value and are left out.
\<close>

subsection \<open>Data\<close>

datatype error =
  ZeroDivisionError | AttributeError | TypeError | ValueError | RuntimeError | IndexError
  | OverflowError

type_synonym mat = "real list list"

datatype tensor = Vec "real list" | Mat mat

datatype phase = Train | Val

text \<open>
  One tensor, or a pair (primary, auxiliary): what \<^verbatim>\<open>model(inputs)\<close> returns, over
  \<open>mat\<close>, and what the variable \<^verbatim>\<open>outputs\<close> holds and the criterion receives, over
  \<open>tensor\<close>.
\<close>

datatype 't outs = Single 't | WithAux 't 't

text \<open>
  The value of a zero-dimensional float tensor. Dividing a tensor by zero does not raise:
  it yields \<open>inf\<close> or \<open>nan\<close>.
\<close>

datatype tfloat = Fin real | PosInf | NaN

text \<open>
  \<^verbatim>\<open>running_corrects\<close> starts as the Python integer 0 and becomes a tensor with the
  first \<^verbatim>\<open>+= curr_acc\<close>; only a tensor has the method \<^verbatim>\<open>.double()\<close>.
\<close>

datatype corrects = PyInt nat | TensorInt nat

record ('w, 'o) world =
  weights :: 'w
  other :: 'o

text \<open>
  The flag of \<open>model_call\<close> is whether gradients are tracked (line 73); the flag of
  \<open>loss_backward\<close> is whether the loss is the weighted sum of line 89.
\<close>

record ('w, 'o, 'x, 'p) collab =
  model_train :: "('w, 'o) world \<Rightarrow> ('w, 'o) world"
  model_eval :: "('w, 'o) world \<Rightarrow> ('w, 'o) world"
  clear_grads :: "('w, 'o) world \<Rightarrow> ('w, 'o) world"
  model_call :: "bool \<Rightarrow> 'x list \<Rightarrow> ('w, 'o) world \<Rightarrow> error + (mat outs \<times> ('w, 'o) world)"
  profile_of :: "'x list \<Rightarrow> ('w, 'o) world \<Rightarrow> 'p"
  criterion :: "tensor outs \<Rightarrow> mat \<Rightarrow> error + real"
  loss_backward :: "bool \<Rightarrow> mat outs \<Rightarrow> mat \<Rightarrow> ('w, 'o) world \<Rightarrow> error + ('w, 'o) world"
  optimizer_step :: "('w, 'o) world \<Rightarrow> error + ('w, 'o) world"
  scheduler_step :: "('w, 'o) world \<Rightarrow> error + ('w, 'o) world"

text \<open>
  A data loader: the batches it yields when iterated in a given epoch, each batch the
  inputs (\<^verbatim>\<open>inputs.size(0)\<close> is their number) and, on its own, the label tensor;
  \<^verbatim>\<open>len(loader.dataset)\<close>; and \<^verbatim>\<open>len(loader)\<close>, which a loader need not have
  (\<open>None\<close>: \<^verbatim>\<open>len\<close> raises TypeError).
\<close>

record 'x loader =
  batches :: "nat \<Rightarrow> ('x list \<times> mat) list"
  dataset_len :: nat
  loader_len :: "nat option"

text \<open>The parameters of \<^verbatim>\<open>train_model\<close> that are plain values.\<close>

record args =
  num_epochs :: int
  num_classes :: int
  is_inception :: bool
  profiler :: bool
  threshold :: real

subsection \<open>Deriving predictions (lines 101-103)\<close>

text \<open>
  The three statements act on tensor objects: \<^verbatim>\<open>torch.clone\<close> allocates a new one, the
  two masked assignments overwrite entries of the object \<^verbatim>\<open>preds\<close> names. The store is
  a list of tensors, an address is an index.
\<close>

fun tmap :: "(real \<Rightarrow> real) \<Rightarrow> tensor \<Rightarrow> tensor" where
  "tmap f (Vec v) = Vec (map f v)"
| "tmap f (Mat m) = Mat (map (map f) m)"

type_synonym heap = "tensor list"

definition torch_clone :: "heap \<Rightarrow> nat \<Rightarrow> nat \<times> heap" where
  "torch_clone h a = (length h, h @ [h ! a])"

definition masked_assign :: "(real \<Rightarrow> bool) \<Rightarrow> real \<Rightarrow> heap \<Rightarrow> nat \<Rightarrow> heap" where
  "masked_assign m v h a = h[a := tmap (\<lambda>x. if m x then v else x) (h ! a)]"

definition derive_preds :: "heap \<Rightarrow> nat \<Rightarrow> nat \<times> heap" where
  "derive_preds h outputs =
     (case torch_clone h outputs of (preds, h1) \<Rightarrow>
        let h2 = masked_assign (\<lambda>x. x \<ge> 0.5) 1 h1 preds;
            h3 = masked_assign (\<lambda>x. x < 0.5) 0 h2 preds
        in (preds, h3))"

definition preds_of :: "tensor \<Rightarrow> tensor" where
  "preds_of outputs = (case derive_preds [outputs] 0 of (preds, h) \<Rightarrow> h ! preds)"

subsection \<open>Counting correct entries (line 114)\<close>

text \<open>
  \<^verbatim>\<open>preds == labels.data\<close> compares element-wise; a dimension of size 1 is broadcast
  against the other operand, any other mismatch raises. A one-dimensional tensor counts
  as a single row.
\<close>

fun rows_of :: "tensor \<Rightarrow> mat" where
  "rows_of (Vec v) = [v]"
| "rows_of (Mat m) = m"

definition broadcast :: "('a \<Rightarrow> 'b \<Rightarrow> 'c) \<Rightarrow> 'a list \<Rightarrow> 'b list \<Rightarrow> error + 'c list" where
  "broadcast f xs ys =
     (if length xs = length ys then Inr (map2 f xs ys)
      else if length xs = 1 then Inr (map (f (hd xs)) ys)
      else if length ys = 1 then Inr (map (\<lambda>x. f x (hd ys)) xs)
      else Inl RuntimeError)"

fun collect :: "(error + 'a) list \<Rightarrow> error + 'a list" where
  "collect [] = Inr []"
| "collect (Inl e # rs) = Inl e"
| "collect (Inr x # rs) = (case collect rs of Inl e \<Rightarrow> Inl e | Inr xs \<Rightarrow> Inr (x # xs))"

definition tensor_eq :: "tensor \<Rightarrow> mat \<Rightarrow> error + bool list list" where
  "tensor_eq p l =
     (case broadcast (\<lambda>r s. broadcast (\<lambda>x y. x = y) r s) (rows_of p) l of
        Inl e \<Rightarrow> Inl e
      | Inr rows \<Rightarrow> collect rows)"

definition torch_sum :: "bool list list \<Rightarrow> nat" where
  "torch_sum m = sum_list (map (\<lambda>r. length (filter (\<lambda>b. b) r)) m)"

subsection \<open>One batch (lines 61-118)\<close>

text \<open>
  Lines 84 and 86: a pair is taken apart; a single tensor is iterated along its first
  dimension, so one with exactly two rows gives its rows, and any other raises ValueError.
\<close>

definition unpack2 :: "mat outs \<Rightarrow> error + (tensor \<times> tensor)" where
  "unpack2 out =
     (case out of
        WithAux t u \<Rightarrow> Inr (Mat t, Mat u)
      | Single t \<Rightarrow> if length t = 2 then Inr (Vec (t ! 0), Vec (t ! 1)) else Inl ValueError)"

text \<open>
  Lines 78-98. The result is the loss, the value of \<^verbatim>\<open>outputs\<close>, what the model
  returned, the state after the call and the profile variable. In the second branch
  \<^verbatim>\<open>outputs\<close> is whatever the model returned, and the criterion is called on it.
\<close>

definition forward_loss ::
  "('w, 'o, 'x, 'p) collab \<Rightarrow> args \<Rightarrow> phase \<Rightarrow> 'x list \<Rightarrow> mat \<Rightarrow> ('w, 'o) world \<Rightarrow> 'p option
     \<Rightarrow> error + (real \<times> tensor outs \<times> mat outs \<times> ('w, 'o) world \<times> 'p option)" where
  "forward_loss cb a ph inputs labels s pr =
     (let pr' = (if profiler a then Some (profile_of cb inputs s) else pr) in
      if is_inception a \<and> ph = Train then
        (case model_call cb (ph = Train) inputs s of
           Inl e \<Rightarrow> Inl e
         | Inr (out, s') \<Rightarrow>
             (case unpack2 out of
                Inl e \<Rightarrow> Inl e
              | Inr (outputs, aux_outputs) \<Rightarrow>
                  (case criterion cb (Single outputs) labels of
                     Inl e \<Rightarrow> Inl e
                   | Inr loss1 \<Rightarrow>
                       (case criterion cb (Single aux_outputs) labels of
                          Inl e \<Rightarrow> Inl e
                        | Inr loss2 \<Rightarrow>
                            Inr (loss1 + 0.4 * loss2, Single outputs, out, s', pr')))))
      else
        (case model_call cb (ph = Train) inputs s of
           Inl e \<Rightarrow> Inl e
         | Inr (out, s') \<Rightarrow>
             (case criterion cb (map_outs Mat out) labels of
                Inl e \<Rightarrow> Inl e
              | Inr loss \<Rightarrow> Inr (loss, map_outs Mat out, out, s', pr'))))"

record ('w, 'o, 'p) batch_result =
  br_world :: "('w, 'o) world"
  br_prof :: "'p option"
  curr_loss :: real
  batch_size :: nat
  curr_acc :: nat
  br_preds :: tensor
  br_labels :: mat

text \<open>
  Lines 61-118 for one batch \<^verbatim>\<open>(inputs, labels)\<close>. \<^verbatim>\<open>torch.clone\<close> of a pair raises
  TypeError.
\<close>

definition batch_step ::
  "('w, 'o, 'x, 'p) collab \<Rightarrow> args \<Rightarrow> phase \<Rightarrow> 'x list \<times> mat \<Rightarrow> ('w, 'o) world \<Rightarrow> 'p option
     \<Rightarrow> error + ('w, 'o, 'p) batch_result" where
  "batch_step cb a ph batch s pr =
     (let inputs = fst batch;
          labels = snd batch;
          s1 = clear_grads cb s
      in case forward_loss cb a ph inputs labels s1 pr of
           Inl e \<Rightarrow> Inl e
         | Inr (loss, outputs, out, s2, pr') \<Rightarrow>
             (case outputs of
                WithAux t u \<Rightarrow> Inl TypeError
              | Single t \<Rightarrow>
                  let preds = preds_of t in
                  (case (if ph = Train
                         then (case loss_backward cb (is_inception a \<and> ph = Train) out labels s2 of
                                 Inl e \<Rightarrow> Inl e
                               | Inr s3 \<Rightarrow> optimizer_step cb s3)
                         else Inr s2) of
                     Inl e \<Rightarrow> Inl e
                   | Inr s4 \<Rightarrow>
                       (case tensor_eq preds labels of
                          Inl e \<Rightarrow> Inl e
                        | Inr m \<Rightarrow>
                            Inr \<lparr>br_world = s4, br_prof = pr', curr_loss = loss,
                                 batch_size = length inputs, curr_acc = torch_sum m,
                                 br_preds = preds, br_labels = labels\<rparr>))))"

subsection \<open>The batches of one phase (lines 51-123)\<close>

record ('w, 'o, 'p) phase_acc =
  pa_world :: "('w, 'o) world"
  pa_prof :: "'p option"
  running_loss :: real
  running_corrects :: corrects
  step_i :: nat
  outputs_batch :: "tensor list"
  targets_batch :: "mat list"

fun add_corrects :: "corrects \<Rightarrow> nat \<Rightarrow> corrects" where
  "add_corrects (PyInt n) c = TensorInt (n + c)"
| "add_corrects (TensorInt n) c = TensorInt (n + c)"

text \<open>
  Lines 120-123: every hundredth step builds a progress line from \<^verbatim>\<open>preds.shape[1]\<close>,
  which a one-dimensional tensor does not have (IndexError).
\<close>

fun progress_line :: "nat \<Rightarrow> tensor \<Rightarrow> error + unit" where
  "progress_line i (Vec v) = (if i mod 100 = 0 then Inl IndexError else Inr ())"
| "progress_line i (Mat m) = Inr ()"

fun run_batches ::
  "('w, 'o, 'x, 'p) collab \<Rightarrow> args \<Rightarrow> phase \<Rightarrow> ('x list \<times> mat) list
     \<Rightarrow> ('w, 'o, 'p) phase_acc \<Rightarrow> error + ('w, 'o, 'p) phase_acc" where
  "run_batches cb a ph [] acc = Inr acc"
| "run_batches cb a ph (b # bs) acc =
     (case batch_step cb a ph b (pa_world acc) (pa_prof acc) of
        Inl e \<Rightarrow> Inl e
      | Inr r \<Rightarrow>
          (case progress_line (step_i acc + 1) (br_preds r) of
             Inl e \<Rightarrow> Inl e
           | Inr u \<Rightarrow>
               run_batches cb a ph bs
                 \<lparr>pa_world = br_world r, pa_prof = br_prof r,
                  running_loss = running_loss acc + curr_loss r * real (batch_size r),
                  running_corrects = add_corrects (running_corrects acc) (curr_acc r),
                  step_i = step_i acc + 1,
                  outputs_batch = outputs_batch acc @ [br_preds r],
                  targets_batch = targets_batch acc @ [br_labels r]\<rparr>))"

text \<open>The results of the successive batches of a phase, as \<open>run_batches\<close> meets them.\<close>

fun batch_results ::
  "('w, 'o, 'x, 'p) collab \<Rightarrow> args \<Rightarrow> phase \<Rightarrow> ('x list \<times> mat) list
     \<Rightarrow> ('w, 'o) world \<Rightarrow> 'p option \<Rightarrow> error + ('w, 'o, 'p) batch_result list" where
  "batch_results cb a ph [] s pr = Inr []"
| "batch_results cb a ph (b # bs) s pr =
     (case batch_step cb a ph b s pr of
        Inl e \<Rightarrow> Inl e
      | Inr r \<Rightarrow>
          (case batch_results cb a ph bs (br_world r) (br_prof r) of
             Inl e \<Rightarrow> Inl e
           | Inr rs \<Rightarrow> Inr (r # rs)))"

subsection \<open>The end of a phase (lines 125-161)\<close>

text \<open>
  Line 127 divides a tensor by a Python integer, which has to fit a tensor scalar
  (a signed or unsigned 64-bit integer): otherwise OverflowError.
\<close>

definition fits_scalar :: "int \<Rightarrow> bool" where
  "fits_scalar d = (- (2 ^ 63) \<le> d \<and> d < 2 ^ 64)"

definition torch_div :: "nat \<Rightarrow> int \<Rightarrow> tfloat" where
  "torch_div c d =
     (if d = 0 then (if c = 0 then NaN else PosInf) else Fin (real c / real_of_int d))"

text \<open>
  \<^verbatim>\<open>np.concatenate\<close> along the first axis: it raises on an empty list, when the arrays
  differ in their number of dimensions, and when two-dimensional arrays differ in their
  second dimension. (An array without rows carries no width here.)
\<close>

fun is_vec :: "tensor \<Rightarrow> bool" where
  "is_vec (Vec v) = True"
| "is_vec (Mat m) = False"

fun entries :: "tensor \<Rightarrow> real list" where
  "entries (Vec v) = v"
| "entries (Mat m) = concat m"

definition np_concatenate :: "tensor list \<Rightarrow> error + tensor" where
  "np_concatenate ts =
     (if ts = [] then Inl ValueError
      else if list_all is_vec ts then Inr (Vec (concat (map entries ts)))
      else if list_ex is_vec ts then Inl ValueError
      else let rows = concat (map rows_of ts) in
        if list_all (\<lambda>r. length r = length (hd rows)) rows then Inr (Mat rows) else Inl ValueError)"

record ('w, 'o, 'p) train_state =
  ts_model :: "('w, 'o) world"
  best_model_wts :: 'w
  best_loss :: real
  best_acc :: tfloat
  prof :: "'p option"
  val_acc_history :: "tfloat list"
  val_loss_history :: "real list"
  val_outputs_history :: "tensor list"
  val_targets_history :: "tensor list"
  train_acc_history :: "tfloat list"
  train_loss_history :: "real list"
  train_outputs_history :: "tensor list"
  train_targets_history :: "tensor list"

definition end_phase ::
  "args \<Rightarrow> (phase \<Rightarrow> 'x loader) \<Rightarrow> phase \<Rightarrow> ('w, 'o, 'p) train_state
     \<Rightarrow> ('w, 'o, 'p) phase_acc \<Rightarrow> error + ('w, 'o, 'p) train_state" where
  "end_phase a dataloaders ph st acc =
     (if dataset_len (dataloaders ph) = 0 then Inl ZeroDivisionError
      else
        let epoch_loss = running_loss acc / real (dataset_len (dataloaders ph)) in
        (case running_corrects acc of
           PyInt n \<Rightarrow> Inl AttributeError
         | TensorInt c \<Rightarrow>
             if \<not> fits_scalar (int (dataset_len (dataloaders ph)) * num_classes a)
             then Inl OverflowError
             else
             let epoch_acc = torch_div c (int (dataset_len (dataloaders ph)) * num_classes a);
                 st1 = st\<lparr>ts_model := pa_world acc, prof := pa_prof acc\<rparr>;
                 st2 = (if ph = Val \<and> epoch_loss < best_loss st1
                        then st1\<lparr>best_loss := epoch_loss, best_acc := epoch_acc,
                                 best_model_wts := weights (ts_model st1)\<rparr>
                        else st1)
             in (case np_concatenate (outputs_batch acc) of
                   Inl e \<Rightarrow> Inl e
                 | Inr outs \<Rightarrow>
                     (case np_concatenate (map Mat (targets_batch acc)) of
                        Inl e \<Rightarrow> Inl e
                      | Inr tgts \<Rightarrow>
                          if ph = Val
                          then Inr (st2\<lparr>val_outputs_history := val_outputs_history st2 @ [outs],
                                        val_targets_history := val_targets_history st2 @ [tgts],
                                        val_acc_history := val_acc_history st2 @ [epoch_acc],
                                        val_loss_history := val_loss_history st2 @ [epoch_loss]\<rparr>)
                          else Inr (st2\<lparr>train_outputs_history := train_outputs_history st2 @ [outs],
                                        train_targets_history := train_targets_history st2 @ [tgts],
                                        train_acc_history := train_acc_history st2 @ [epoch_acc],
                                        train_loss_history := train_loss_history st2 @ [epoch_loss]\<rparr>)))))"

text \<open>Lines 45-161: one phase of one epoch.\<close>

definition init_acc :: "('w, 'o) world \<Rightarrow> 'p option \<Rightarrow> ('w, 'o, 'p) phase_acc" where
  "init_acc s pr =
     \<lparr>pa_world = s, pa_prof = pr, running_loss = 0, running_corrects = PyInt 0, step_i = 0,
      outputs_batch = [], targets_batch = []\<rparr>"

definition set_mode :: "('w, 'o, 'x, 'p) collab \<Rightarrow> phase \<Rightarrow> ('w, 'o) world \<Rightarrow> ('w, 'o) world" where
  "set_mode cb ph s = (if ph = Train then model_train cb s else model_eval cb s)"

definition run_phase ::
  "('w, 'o, 'x, 'p) collab \<Rightarrow> args \<Rightarrow> (phase \<Rightarrow> 'x loader) \<Rightarrow> nat \<Rightarrow> phase
     \<Rightarrow> ('w, 'o, 'p) train_state \<Rightarrow> error + ('w, 'o, 'p) train_state" where
  "run_phase cb a dataloaders epoch ph st =
     (case run_batches cb a ph (batches (dataloaders ph) epoch)
             (init_acc (set_mode cb ph (ts_model st)) (prof st)) of
        Inl e \<Rightarrow> Inl e
      | Inr acc \<Rightarrow> end_phase a dataloaders ph st acc)"

subsection \<open>Epochs and the whole run (lines 24-192)\<close>

fun run_phases ::
  "('w, 'o, 'x, 'p) collab \<Rightarrow> args \<Rightarrow> (phase \<Rightarrow> 'x loader) \<Rightarrow> nat \<Rightarrow> phase list
     \<Rightarrow> ('w, 'o, 'p) train_state \<Rightarrow> error + ('w, 'o, 'p) train_state" where
  "run_phases cb a dataloaders epoch [] st = Inr st"
| "run_phases cb a dataloaders epoch (ph # phs) st =
     (case run_phase cb a dataloaders epoch ph st of
        Inl e \<Rightarrow> Inl e
      | Inr st' \<Rightarrow> run_phases cb a dataloaders epoch phs st')"

definition run_epoch ::
  "('w, 'o, 'x, 'p) collab \<Rightarrow> args \<Rightarrow> (phase \<Rightarrow> 'x loader) \<Rightarrow> nat
     \<Rightarrow> ('w, 'o, 'p) train_state \<Rightarrow> error + ('w, 'o, 'p) train_state" where
  "run_epoch cb a dataloaders epoch st =
     (case run_phases cb a dataloaders epoch [Train, Val] st of
        Inl e \<Rightarrow> Inl e
      | Inr st' \<Rightarrow>
          (case scheduler_step cb (ts_model st') of
             Inl e \<Rightarrow> Inl e
           | Inr s \<Rightarrow> Inr (st'\<lparr>ts_model := s\<rparr>)))"

fun run_epochs ::
  "('w, 'o, 'x, 'p) collab \<Rightarrow> args \<Rightarrow> (phase \<Rightarrow> 'x loader) \<Rightarrow> nat list
     \<Rightarrow> ('w, 'o, 'p) train_state \<Rightarrow> error + ('w, 'o, 'p) train_state" where
  "run_epochs cb a dataloaders [] st = Inr st"
| "run_epochs cb a dataloaders (epoch # es) st =
     (case run_epoch cb a dataloaders epoch st of
        Inl e \<Rightarrow> Inl e
      | Inr st' \<Rightarrow> run_epochs cb a dataloaders es st')"

record history =
  h_acc :: "tfloat list"
  h_loss :: "real list"
  h_targets :: "tensor list"
  h_outputs :: "tensor list"

text \<open>
  What \<^verbatim>\<open>train_model\<close> returns (model, prof, validation history, training history),
  with the two values it prints last, \<^verbatim>\<open>best_acc\<close> and \<^verbatim>\<open>best_loss\<close>.
\<close>

record ('w, 'o, 'p) outcome =
  ret_model :: "('w, 'o) world"
  ret_prof :: "'p option"
  ret_val :: history
  ret_train :: history
  printed_best_acc :: tfloat
  printed_best_loss :: real

definition init_state :: "('w, 'o) world \<Rightarrow> ('w, 'o, 'p) train_state" where
  "init_state s =
     \<lparr>ts_model = s, best_model_wts = weights s, best_loss = 10000, best_acc = Fin 0,
      prof = None,
      val_acc_history = [], val_loss_history = [], val_outputs_history = [],
      val_targets_history = [],
      train_acc_history = [], train_loss_history = [], train_outputs_history = [],
      train_targets_history = []\<rparr>"

text \<open>
  Line 38 takes \<^verbatim>\<open>len(dataloaders["train"])\<close> before the loop; the value only feeds the
  progress line, but a loader without a length raises there.
\<close>

definition train_model ::
  "('w, 'o, 'x, 'p) collab \<Rightarrow> args \<Rightarrow> (phase \<Rightarrow> 'x loader) \<Rightarrow> ('w, 'o) world
     \<Rightarrow> error + ('w, 'o, 'p) outcome" where
  "train_model cb a dataloaders s =
     (case loader_len (dataloaders Train) of
        None \<Rightarrow> Inl TypeError
      | Some total_steps \<Rightarrow>
          (case run_epochs cb a dataloaders [0 ..< nat (num_epochs a)] (init_state s) of
             Inl e \<Rightarrow> Inl e
           | Inr st \<Rightarrow>
               Inr \<lparr>ret_model = (ts_model st)\<lparr>weights := best_model_wts st\<rparr>,
                    ret_prof = prof st,
                    ret_val = \<lparr>h_acc = val_acc_history st, h_loss = val_loss_history st,
                               h_targets = val_targets_history st,
                               h_outputs = val_outputs_history st\<rparr>,
                    ret_train = \<lparr>h_acc = train_acc_history st, h_loss = train_loss_history st,
                                 h_targets = train_targets_history st,
                                 h_outputs = train_outputs_history st\<rparr>,
                    printed_best_acc = best_acc st,
                    printed_best_loss = best_loss st\<rparr>))"

subsection \<open>Notions used to state the properties\<close>

fun corrects_count :: "corrects \<Rightarrow> nat" where
  "corrects_count (PyInt n) = n"
| "corrects_count (TensorInt n) = n"

text \<open>The four history lists of a phase.\<close>

fun acc_history :: "phase \<Rightarrow> ('w, 'o, 'p) train_state \<Rightarrow> tfloat list" where
  "acc_history Train st = train_acc_history st"
| "acc_history Val st = val_acc_history st"

fun loss_history :: "phase \<Rightarrow> ('w, 'o, 'p) train_state \<Rightarrow> real list" where
  "loss_history Train st = train_loss_history st"
| "loss_history Val st = val_loss_history st"

fun outputs_history :: "phase \<Rightarrow> ('w, 'o, 'p) train_state \<Rightarrow> tensor list" where
  "outputs_history Train st = train_outputs_history st"
| "outputs_history Val st = val_outputs_history st"

fun targets_history :: "phase \<Rightarrow> ('w, 'o, 'p) train_state \<Rightarrow> tensor list" where
  "targets_history Train st = train_targets_history st"
| "targets_history Val st = val_targets_history st"

text \<open>The primary component of what the model returned.\<close>

fun primary :: "'t outs \<Rightarrow> 't" where
  "primary (Single t) = t"
| "primary (WithAux t u) = t"

text \<open>The length of a tensor along its first dimension.\<close>

fun dim0 :: "tensor \<Rightarrow> nat" where
  "dim0 (Vec v) = length v"
| "dim0 (Mat m) = length m"

text \<open>The sum of the sizes (\<^verbatim>\<open>inputs.size(0)\<close>) of a list of batches.\<close>

definition batch_sizes :: "('x list \<times> mat) list \<Rightarrow> nat" where
  "batch_sizes bs = sum_list (map (\<lambda>b. length (fst b)) bs)"

text \<open>A tensor of shape \<open>(b, c)\<close>, and a tensor whose entries are 0 or 1.\<close>

fun shaped :: "nat \<Rightarrow> nat \<Rightarrow> tensor \<Rightarrow> bool" where
  "shaped b c (Vec v) = False"
| "shaped b c (Mat m) = (length m = b \<and> list_all (\<lambda>r. length r = c) m)"

definition binary :: "tensor \<Rightarrow> bool" where
  "binary t = list_all (\<lambda>v. v = 0 \<or> v = 1) (entries t)"

subsection \<open>A small instance\<close>

text \<open>
  Collaborators for concrete runs: the weights are a counter of optimizer steps, the model
  output and the criterion are given, nothing fails, and the profile of a call is the
  number of optimizer steps taken before it.
\<close>

definition demo_collab ::
  "(nat \<Rightarrow> nat list \<Rightarrow> mat outs) \<Rightarrow> (tensor outs \<Rightarrow> mat \<Rightarrow> real) \<Rightarrow> (nat, unit, nat, nat) collab" where
  "demo_collab f c =
     \<lparr>model_train = (\<lambda>s. s), model_eval = (\<lambda>s. s), clear_grads = (\<lambda>s. s),
      model_call = (\<lambda>g xs s. Inr (f (weights s) xs, s)),
      profile_of = (\<lambda>xs s. weights s),
      criterion = (\<lambda>out l. Inr (c out l)),
      loss_backward = (\<lambda>w out l s. Inr s),
      optimizer_step = (\<lambda>s. Inr (s\<lparr>weights := Suc (weights s)\<rparr>)),
      scheduler_step = (\<lambda>s. Inr s)\<rparr>"

definition demo_args :: "int \<Rightarrow> int \<Rightarrow> bool \<Rightarrow> args" where
  "demo_args n c inc =
     \<lparr>num_epochs = n, num_classes = c, is_inception = inc, profiler = False, threshold = 0.5\<rparr>"

text \<open>A loader with a length, and one without.\<close>

definition demo_loader :: "(nat list \<times> mat) list \<Rightarrow> nat \<Rightarrow> nat loader" where
  "demo_loader bs n = \<lparr>batches = (\<lambda>e. bs), dataset_len = n, loader_len = Some (length bs)\<rparr>"

definition demo_stream :: "(nat list \<times> mat) list \<Rightarrow> nat \<Rightarrow> nat loader" where
  "demo_stream bs n = \<lparr>batches = (\<lambda>e. bs), dataset_len = n, loader_len = None\<rparr>"

fun demo_loaders :: "nat loader \<Rightarrow> nat loader \<Rightarrow> phase \<Rightarrow> nat loader" where
  "demo_loaders tr va Train = tr"
| "demo_loaders tr va Val = va"

definition demo_world :: "(nat, unit) world" where
  "demo_world = \<lparr>weights = 0, other = ()\<rparr>"

text \<open>
  A model with an auxiliary head, a model that answers with one tensor of two rows, and a
  criterion that tells a score of at least one half from a smaller one.
\<close>

definition aux_model :: "nat \<Rightarrow> nat list \<Rightarrow> mat outs" where
  "aux_model w xs = WithAux (map (\<lambda>x. [9/10]) xs) (map (\<lambda>x. [1/10]) xs)"

definition two_row_model :: "nat \<Rightarrow> nat list \<Rightarrow> mat outs" where
  "two_row_model w xs = Single [[9/10], [1/10]]"

definition head_loss :: "tensor outs \<Rightarrow> mat \<Rightarrow> real" where
  "head_loss out l = (if 1/2 \<le> hd (entries (primary out)) then 1 else 2)"

text \<open>
  A model that gives every class of every sample the same score, a function of the
  weights; the criterion that returns the first score; and a constant criterion.
\<close>

definition score_model :: "nat \<Rightarrow> (nat \<Rightarrow> real) \<Rightarrow> nat \<Rightarrow> nat list \<Rightarrow> mat outs" where
  "score_model c f w xs = Single (map (\<lambda>x. replicate c (f w)) xs)"

definition const_score :: "real \<Rightarrow> nat \<Rightarrow> real" where
  "const_score v w = v"

text \<open>The score after 1, 2 and any other number of optimizer steps.\<close>

definition step_score :: "nat \<Rightarrow> real" where
  "step_score w = (if w = 1 then 9/10 else if w = 2 then 7/10 else 8/10)"

text \<open>A model that answers every batch with a single row holding a single score.\<close>

definition pooled_model :: "nat \<Rightarrow> nat list \<Rightarrow> mat outs" where
  "pooled_model w xs = Single [[9/10]]"

definition first_entry :: "tensor outs \<Rightarrow> mat \<Rightarrow> real" where
  "first_entry out l = hd (entries (primary out))"

definition flat_loss :: "real \<Rightarrow> tensor outs \<Rightarrow> mat \<Rightarrow> real" where
  "flat_loss v out l = v"

section \<open>Properties\<close>

subsection \<open>Basic facts\<close>

lemma projr_collapse: "\<not> isl x \<Longrightarrow> x = Inr (projr x)"
  by (cases x) auto

lemma batch_step_forward:
  assumes "batch_step cb a ph batch s pr = Inr r"
  shows "\<exists>loss outputs out s2. forward_loss cb a ph (fst batch) (snd batch) (clear_grads cb s) pr
             = Inr (loss, Single outputs, out, s2, br_prof r)
           \<and> curr_loss r = loss \<and> br_preds r = preds_of outputs
           \<and> (if ph = Train
                then \<exists>s3. loss_backward cb (is_inception a \<and> ph = Train) out (snd batch) s2 = Inr s3
                         \<and> optimizer_step cb s3 = Inr (br_world r)
                else br_world r = s2)"
proof -
  from assms obtain loss outs out s2 pr' where
    fl: "forward_loss cb a ph (fst batch) (snd batch) (clear_grads cb s) pr
           = Inr (loss, outs, out, s2, pr')"
    by (cases "forward_loss cb a ph (fst batch) (snd batch) (clear_grads cb s) pr")
       (auto simp: batch_step_def Let_def)
  from assms fl obtain outputs where o: "outs = Single outputs"
    by (cases outs) (auto simp: batch_step_def Let_def)
  from assms fl o show ?thesis
    by (auto simp: batch_step_def Let_def split: sum.splits if_splits)
qed

lemma forward_loss_outputs:
  assumes "forward_loss cb a ph inputs labels s pr = Inr (loss, Single outputs, out, s', pr')"
  shows "model_call cb (ph = Train) inputs s = Inr (out, s')
     \<and> (if is_inception a \<and> ph = Train
          then \<exists>aux l1 l2. unpack2 out = Inr (outputs, aux)
                 \<and> criterion cb (Single outputs) labels = Inr l1
                 \<and> criterion cb (Single aux) labels = Inr l2 \<and> loss = l1 + 0.4 * l2
          else \<exists>t. out = Single t \<and> outputs = Mat t
                 \<and> criterion cb (Single (Mat t)) labels = Inr loss)"
proof (cases "is_inception a \<and> ph = Train")
  case True
  with assms show ?thesis
    by (auto simp: forward_loss_def Let_def split: sum.splits prod.splits)
next
  case False
  with assms obtain t where "out = Single t"
    by (cases out) (auto simp: forward_loss_def Let_def split: sum.splits prod.splits)
  with assms False show ?thesis
    by (auto simp: forward_loss_def Let_def split: sum.splits prod.splits)
qed

lemma unpack2_primary:
  assumes "unpack2 out = Inr (outputs, aux)"
  shows "outputs = Mat (primary out) \<or> (\<exists>r0 r1. out = Single [r0, r1] \<and> outputs = Vec r0)"
proof (cases out)
  case (Single t)
  with assms have l: "length t = 2" and o: "outputs = Vec (t ! 0)"
    by (auto simp: unpack2_def split: if_splits)
  from l obtain r0 r1 where "t = [r0, r1]"
    by (cases t; cases "tl t") auto
  with Single o show ?thesis by simp
next
  case (WithAux t u)
  with assms show ?thesis by (simp add: unpack2_def)
qed

lemma batch_step_preds:
  assumes "batch_step cb a ph batch s pr = Inr r"
  shows "\<exists>g out s' outputs. model_call cb g (fst batch) (clear_grads cb s) = Inr (out, s')
            \<and> (outputs = Mat (primary out)
                 \<or> (is_inception a \<and> ph = Train
                      \<and> (\<exists>r0 r1. out = Single [r0, r1] \<and> outputs = Vec r0)))
            \<and> br_preds r = preds_of outputs"
proof -
  from batch_step_forward [OF assms] obtain loss outputs out s2 where
    fl: "forward_loss cb a ph (fst batch) (snd batch) (clear_grads cb s) pr
             = Inr (loss, Single outputs, out, s2, br_prof r)"
    and p: "br_preds r = preds_of outputs"
    by blast
  from forward_loss_outputs [OF fl] have
    mc: "model_call cb (ph = Train) (fst batch) (clear_grads cb s) = Inr (out, s2)"
    and br: "if is_inception a \<and> ph = Train
          then \<exists>aux. unpack2 out = Inr (outputs, aux)
          else \<exists>t. out = Single t \<and> outputs = Mat t"
    by (auto split: if_splits)
  have "outputs = Mat (primary out)
          \<or> (is_inception a \<and> ph = Train \<and> (\<exists>r0 r1. out = Single [r0, r1] \<and> outputs = Vec r0))"
  proof (cases "is_inception a \<and> ph = Train")
    case True
    with br obtain aux where "unpack2 out = Inr (outputs, aux)" by auto
    from unpack2_primary [OF this] True show ?thesis by blast
  next
    case False
    with br show ?thesis by auto
  qed
  with mc p show ?thesis by blast
qed

subsection \<open>Prediction derivation\<close>

lemma preds_of_eq: "preds_of outputs = tmap (\<lambda>x. if 1/2 \<le> x then 1 else 0) outputs"
  by (cases outputs)
     (auto simp: preds_of_def derive_preds_def torch_clone_def masked_assign_def Let_def)

text \<open>
  C3. Prediction derivation clones the raw output and maps each entry on its own: an entry
  \<open>x\<close> becomes 1 if \<open>x \<ge> 0.5\<close> and 0 if \<open>x < 0.5\<close> (so 0.5 itself gives 1). The
  predictions live in a new tensor; the raw output, like every tensor that existed before,
  is left as it was.
\<close>

theorem derive_preds_thresholds:
  assumes "outputs < length h" and "derive_preds h outputs = (preds, h')"
  shows "preds = length h \<and> take (length h) h' = h \<and> h' ! outputs = h ! outputs
         \<and> h' ! preds = tmap (\<lambda>x. if 1/2 \<le> x then 1 else 0) (h ! outputs)"
proof -
  have "tmap (\<lambda>x. if x < 0.5 then 0 else x) (tmap (\<lambda>x. if x \<ge> 0.5 then 1 else x) (h ! outputs))
          = tmap (\<lambda>x. if 1/2 \<le> x then 1 else 0) (h ! outputs)"
    by (cases "h ! outputs") auto
  with assms show ?thesis
    by (auto simp: derive_preds_def torch_clone_def masked_assign_def Let_def nth_append)
qed

theorem derive_preds_thresholds_witness:
  "(0::nat) < length [Mat [[1/2, 49/100, 7/10], [0, 1, 3]]]
   \<and> derive_preds [Mat [[1/2, 49/100, 7/10], [0, 1, 3]]] 0
       = (1, [Mat [[1/2, 49/100, 7/10], [0, 1, 3]], Mat [[1, 0, 1], [0, 1, 1]]])
   \<and> [Mat [[1/2, 49/100, 7/10], [0, 1, 3]], Mat [[1, 0, 1], [0, 1, 1]]] ! 0
       = Mat [[1/2, 49/100, 7/10], [0, 1, 3]]
   \<and> [Mat [[1/2, 49/100, 7/10], [0, 1, 3]], Mat [[1, 0, 1], [0, 1, 1]]] ! 1
       = Mat [[1, 0, 1], [0, 1, 1]]"
proof -
  have h1: "(0::nat) < length [Mat [[1/2, 49/100, 7/10], [0, 1, 3]]]" by simp
  have h2: "derive_preds [Mat [[1/2, 49/100, 7/10], [0, 1, 3]]] 0
       = (1, [Mat [[1/2, 49/100, 7/10], [0, 1, 3]], Mat [[1, 0, 1], [0, 1, 1]]])"
    by (simp add: derive_preds_def torch_clone_def masked_assign_def Let_def)
  show ?thesis using h1 h2 derive_preds_thresholds [OF h1 h2] by simp
qed

subsection \<open>The threshold parameter\<close>

lemma forward_loss_threshold:
  "forward_loss cb (a\<lparr>threshold := t\<rparr>) ph inputs labels s pr
     = forward_loss cb a ph inputs labels s pr"
  by (simp add: forward_loss_def)

lemma batch_step_threshold:
  "batch_step cb (a\<lparr>threshold := t\<rparr>) ph b s pr = batch_step cb a ph b s pr"
  by (simp add: batch_step_def forward_loss_threshold Let_def
      split: sum.splits prod.splits outs.splits)

lemma run_batches_threshold:
  "run_batches cb (a\<lparr>threshold := t\<rparr>) ph bs acc = run_batches cb a ph bs acc"
  by (induction bs arbitrary: acc) (simp_all add: batch_step_threshold split: sum.splits)

lemma end_phase_threshold:
  "end_phase (a\<lparr>threshold := t\<rparr>) dl ph st acc = end_phase a dl ph st acc"
  by (simp add: end_phase_def Let_def split: sum.splits corrects.splits)

lemma run_phase_threshold:
  "run_phase cb (a\<lparr>threshold := t\<rparr>) dl epoch ph st = run_phase cb a dl epoch ph st"
  by (simp add: run_phase_def run_batches_threshold end_phase_threshold split: sum.splits)

lemma run_phases_threshold:
  "run_phases cb (a\<lparr>threshold := t\<rparr>) dl epoch phs st = run_phases cb a dl epoch phs st"
  by (induction phs arbitrary: st) (simp_all add: run_phase_threshold split: sum.splits)

lemma run_epoch_threshold:
  "run_epoch cb (a\<lparr>threshold := t\<rparr>) dl epoch st = run_epoch cb a dl epoch st"
  by (simp add: run_epoch_def run_phases_threshold del: run_phases.simps)

lemma run_epochs_threshold:
  "run_epochs cb (a\<lparr>threshold := t\<rparr>) dl es st = run_epochs cb a dl es st"
  by (induction es arbitrary: st) (simp_all add: run_epoch_threshold split: sum.splits)

text \<open>
  C2. Whatever value the caller passes as \<open>threshold\<close>, the run is the same: the
  processing of every batch and the result of the whole of \<open>train_model\<close> do not depend
  on it, and the predictions of a batch are the raw output cut at the constant 0.5. (The
  raw output is the primary tensor the model returned or, where line 84 or 86 unpacked a
  tensor of two rows, its first row.)
\<close>

theorem threshold_ignored:
  "train_model cb (a\<lparr>threshold := t\<rparr>) dataloaders s = train_model cb a dataloaders s
   \<and> batch_step cb (a\<lparr>threshold := t\<rparr>) ph b w pr = batch_step cb a ph b w pr
   \<and> (batch_step cb (a\<lparr>threshold := t\<rparr>) ph b w pr = Inr r \<longrightarrow>
        (\<exists>g out w' outputs. model_call cb g (fst b) (clear_grads cb w) = Inr (out, w')
           \<and> (outputs = Mat (primary out)
                \<or> (is_inception a \<and> ph = Train
                     \<and> (\<exists>r0 r1. out = Single [r0, r1] \<and> outputs = Vec r0)))
           \<and> br_preds r = tmap (\<lambda>x. if 1/2 \<le> x then 1 else 0) outputs))"
proof -
  have "\<exists>g out w' outputs. model_call cb g (fst b) (clear_grads cb w) = Inr (out, w')
           \<and> (outputs = Mat (primary out)
                \<or> (is_inception a \<and> ph = Train
                     \<and> (\<exists>r0 r1. out = Single [r0, r1] \<and> outputs = Vec r0)))
           \<and> br_preds r = tmap (\<lambda>x. if 1/2 \<le> x then 1 else 0) outputs"
    if "batch_step cb (a\<lparr>threshold := t\<rparr>) ph b w pr = Inr r"
  proof -
    from that have "batch_step cb a ph b w pr = Inr r"
      by (simp add: batch_step_threshold)
    from batch_step_preds [OF this] show ?thesis
      by (simp add: preds_of_eq)
  qed
  moreover have "train_model cb (a\<lparr>threshold := t\<rparr>) dataloaders s = train_model cb a dataloaders s"
    by (simp add: train_model_def run_epochs_threshold split: option.splits)
  moreover have "batch_step cb (a\<lparr>threshold := t\<rparr>) ph b w pr = batch_step cb a ph b w pr"
    by (rule batch_step_threshold)
  ultimately show ?thesis by blast
qed

theorem threshold_ignored_witness:
  "batch_step (demo_collab (score_model 3 (const_score (6/10))) first_entry)
       ((demo_args 1 3 False)\<lparr>threshold := 9/10\<rparr>) Val ([0], [[1, 0, 1]]) demo_world None
     = Inr (projr (batch_step (demo_collab (score_model 3 (const_score (6/10))) first_entry)
         ((demo_args 1 3 False)\<lparr>threshold := 9/10\<rparr>) Val ([0], [[1, 0, 1]]) demo_world None))
   \<and> br_preds (projr (batch_step (demo_collab (score_model 3 (const_score (6/10))) first_entry)
         ((demo_args 1 3 False)\<lparr>threshold := 9/10\<rparr>) Val ([0], [[1, 0, 1]]) demo_world None))
       = Mat [[1, 1, 1]]"
proof -
  let ?cb = "demo_collab (score_model 3 (const_score (6/10))) first_entry"
  let ?a = "demo_args 1 3 False"
  let ?run = "batch_step ?cb (?a\<lparr>threshold := 9/10\<rparr>) Val ([0], [[1, 0, 1]]) demo_world None"
  have "\<not> isl ?run" by code_simp
  then have h: "?run = Inr (projr ?run)" by (rule projr_collapse)
  from threshold_ignored [where cb = ?cb and a = ?a and t = "9/10" and ph = Val
      and b = "([0], [[1, 0, 1]])" and w = demo_world and pr = None and r = "projr ?run"] h
  obtain g out w' outputs where
    "model_call ?cb g (fst ([0::nat], [[1, 0, 1::real]])) (clear_grads ?cb demo_world) = Inr (out, w')"
    "outputs = Mat (primary out)"
    "br_preds (projr ?run) = tmap (\<lambda>x. if 1/2 \<le> x then 1 else 0) outputs"
    by blast
  then have "br_preds (projr ?run) = Mat [[1, 1, 1]]"
    by (auto simp: demo_collab_def score_model_def const_score_def numeral_3_eq_3)
  with h show ?thesis by simp
qed

subsection \<open>No epochs\<close>

text \<open>
  C10, as the code has it. Line 38 takes the length of the training loader before the
  loop. With \<open>num_epochs = 0\<close> and a training loader that has a length, the run returns
  at once, whatever the collaborators, the batches and the profiler flag are: the returned
  model is the initial one with its own initial weights loaded back, the profile is
  \<open>None\<close>, and the eight history lists are empty. With a training loader that has no
  length the run fails with TypeError.
\<close>

theorem train_model_zero_epochs:
  "(loader_len (dataloaders Train) = Some n \<longrightarrow>
      train_model cb (a\<lparr>num_epochs := 0\<rparr>) dataloaders s =
        Inr \<lparr>ret_model = s\<lparr>weights := weights s\<rparr>, ret_prof = None,
             ret_val = \<lparr>h_acc = [], h_loss = [], h_targets = [], h_outputs = []\<rparr>,
             ret_train = \<lparr>h_acc = [], h_loss = [], h_targets = [], h_outputs = []\<rparr>,
             printed_best_acc = Fin 0, printed_best_loss = 10000\<rparr>)
   \<and> (loader_len (dataloaders Train) = None \<longrightarrow>
        train_model cb (a\<lparr>num_epochs := 0\<rparr>) dataloaders s = Inl TypeError)"
  by (simp add: train_model_def init_state_def)

theorem train_model_zero_epochs_witness:
  "loader_len (demo_loaders (demo_loader [([0], [[1]])] 1) (demo_loader [([0], [[1]])] 1) Train)
     = Some 1
   \<and> train_model (demo_collab (score_model 1 (const_score (9/10))) first_entry)
        ((demo_args 5 1 False)\<lparr>num_epochs := 0\<rparr>)
        (demo_loaders (demo_loader [([0], [[1]])] 1) (demo_loader [([0], [[1]])] 1)) demo_world
     = Inr \<lparr>ret_model = demo_world, ret_prof = None,
            ret_val = \<lparr>h_acc = [], h_loss = [], h_targets = [], h_outputs = []\<rparr>,
            ret_train = \<lparr>h_acc = [], h_loss = [], h_targets = [], h_outputs = []\<rparr>,
            printed_best_acc = Fin 0, printed_best_loss = 10000\<rparr>
   \<and> loader_len (demo_loaders (demo_stream [([0], [[1]])] 1) (demo_loader [([0], [[1]])] 1) Train)
     = None
   \<and> train_model (demo_collab (score_model 1 (const_score (9/10))) first_entry)
        ((demo_args 5 1 False)\<lparr>num_epochs := 0\<rparr>)
        (demo_loaders (demo_stream [([0], [[1]])] 1) (demo_loader [([0], [[1]])] 1)) demo_world
     = Inl TypeError"
proof -
  let ?dl = "demo_loaders (demo_loader [([0], [[1]])] 1) (demo_loader [([0], [[1]])] 1)"
  let ?ds = "demo_loaders (demo_stream [([0], [[1]])] 1) (demo_loader [([0], [[1]])] 1)"
  have l: "loader_len (?dl Train) = Some 1"
    by (simp add: demo_loader_def)
  have n: "loader_len (?ds Train) = None"
    by (simp add: demo_stream_def)
  from train_model_zero_epochs [where dataloaders = ?dl and n = 1
      and cb = "demo_collab (score_model 1 (const_score (9/10))) first_entry"
      and a = "demo_args 5 1 False" and s = demo_world] l
  have a: "train_model (demo_collab (score_model 1 (const_score (9/10))) first_entry)
        ((demo_args 5 1 False)\<lparr>num_epochs := 0\<rparr>) ?dl demo_world
     = Inr \<lparr>ret_model = demo_world, ret_prof = None,
            ret_val = \<lparr>h_acc = [], h_loss = [], h_targets = [], h_outputs = []\<rparr>,
            ret_train = \<lparr>h_acc = [], h_loss = [], h_targets = [], h_outputs = []\<rparr>,
            printed_best_acc = Fin 0, printed_best_loss = 10000\<rparr>"
    by simp
  from train_model_zero_epochs [where dataloaders = ?ds and n = 1
      and cb = "demo_collab (score_model 1 (const_score (9/10))) first_entry"
      and a = "demo_args 5 1 False" and s = demo_world] n
  have b: "train_model (demo_collab (score_model 1 (const_score (9/10))) first_entry)
        ((demo_args 5 1 False)\<lparr>num_epochs := 0\<rparr>) ?ds demo_world = Inl TypeError"
    by simp
  from l a n b show ?thesis by (intro conjI)
qed

text \<open>
  C10 as stated fails for a training loader without a length (a loader over a stream of
  samples): with \<open>num_epochs = 0\<close> the run does not return, line 38 raises TypeError.
\<close>

theorem zero_epochs_without_length:
  "train_model (demo_collab (score_model 1 (const_score (9/10))) first_entry) (demo_args 0 1 False)
      (demo_loaders (demo_stream [([0], [[1]])] 1) (demo_loader [([0], [[1]])] 1)) demo_world
     = Inl TypeError"
  by (simp add: train_model_def demo_stream_def)

subsection \<open>One batch\<close>

lemma batch_step_fields:
  assumes "batch_step cb a ph batch s pr = Inr r"
  shows "batch_size r = length (fst batch) \<and> br_labels r = snd batch
         \<and> (\<exists>m. tensor_eq (br_preds r) (br_labels r) = Inr m \<and> curr_acc r = torch_sum m)"
  using assms
  by (auto simp: batch_step_def Let_def split: sum.splits prod.splits if_splits outs.splits)

text \<open>
  C4. For every batch that is processed with \<open>is_inception\<close> set in the training phase,
  the model is called once, on the state with cleared gradients, and what it returns is
  unpacked into a primary and an auxiliary output; the loss of the batch is
  \<open>criterion(primary) + 0.4 * criterion(auxiliary)\<close>, and that one call is followed by the
  backward pass and the optimizer step. In every other case (flag not set, or validation
  phase) the model yields one output and the loss is the criterion on it.
\<close>

theorem batch_loss_formula:
  assumes "batch_step cb a ph batch s pr = Inr r"
  shows "(is_inception a \<and> ph = Train \<longrightarrow>
            (\<exists>out outputs aux s' l1 l2 s3.
               model_call cb True (fst batch) (clear_grads cb s) = Inr (out, s')
               \<and> unpack2 out = Inr (outputs, aux)
               \<and> criterion cb (Single outputs) (snd batch) = Inr l1
               \<and> criterion cb (Single aux) (snd batch) = Inr l2
               \<and> curr_loss r = l1 + 0.4 * l2
               \<and> loss_backward cb True out (snd batch) s' = Inr s3
               \<and> optimizer_step cb s3 = Inr (br_world r)))
       \<and> (\<not> (is_inception a \<and> ph = Train) \<longrightarrow>
            (\<exists>outputs s' l.
               model_call cb (ph = Train) (fst batch) (clear_grads cb s) = Inr (Single outputs, s')
               \<and> criterion cb (Single (Mat outputs)) (snd batch) = Inr l
               \<and> curr_loss r = l
               \<and> (ph = Val \<longrightarrow> br_world r = s')))"
proof -
  from batch_step_forward [OF assms] obtain loss outputs out s2 where
    fl: "forward_loss cb a ph (fst batch) (snd batch) (clear_grads cb s) pr
             = Inr (loss, Single outputs, out, s2, br_prof r)"
    and l: "curr_loss r = loss"
    and w: "if ph = Train
                then \<exists>s3. loss_backward cb (is_inception a \<and> ph = Train) out (snd batch) s2 = Inr s3
                         \<and> optimizer_step cb s3 = Inr (br_world r)
                else br_world r = s2"
    by blast
  note f = forward_loss_outputs [OF fl]
  show ?thesis
  proof (cases "is_inception a \<and> ph = Train")
    case True
    with f l w show ?thesis by auto
  next
    case False
    with f l w show ?thesis by (cases ph) auto
  qed
qed

theorem batch_loss_formula_witness:
  "batch_step (demo_collab aux_model head_loss) (demo_args 1 1 True) Train ([0], [[1]])
       demo_world None
     = Inr (projr (batch_step (demo_collab aux_model head_loss) (demo_args 1 1 True) Train
                     ([0], [[1]]) demo_world None))
   \<and> curr_loss (projr (batch_step (demo_collab aux_model head_loss) (demo_args 1 1 True) Train
                     ([0], [[1]]) demo_world None)) = 9/5
   \<and> batch_step (demo_collab two_row_model head_loss) (demo_args 1 1 True) Train
       ([0, 1], [[1], [0]]) demo_world None
     = Inr (projr (batch_step (demo_collab two_row_model head_loss) (demo_args 1 1 True) Train
                     ([0, 1], [[1], [0]]) demo_world None))
   \<and> curr_loss (projr (batch_step (demo_collab two_row_model head_loss) (demo_args 1 1 True)
                     Train ([0, 1], [[1], [0]]) demo_world None)) = 9/5
   \<and> br_preds (projr (batch_step (demo_collab two_row_model head_loss) (demo_args 1 1 True)
                     Train ([0, 1], [[1], [0]]) demo_world None)) = Vec [1]
   \<and> batch_step (demo_collab aux_model head_loss) (demo_args 1 1 True) Val ([0], [[1]])
       demo_world None = Inl TypeError
   \<and> batch_step (demo_collab (score_model 1 (const_score (9/10))) head_loss) (demo_args 1 1 True)
       Val ([0], [[1]]) demo_world None
     = Inr (projr (batch_step (demo_collab (score_model 1 (const_score (9/10))) head_loss)
                     (demo_args 1 1 True) Val ([0], [[1]]) demo_world None))
   \<and> curr_loss (projr (batch_step (demo_collab (score_model 1 (const_score (9/10))) head_loss)
                     (demo_args 1 1 True) Val ([0], [[1]]) demo_world None)) = 1"
proof -
  let ?a = "demo_args 1 1 True"
  let ?cb3 = "demo_collab (score_model 1 (const_score (9/10))) head_loss"
  let ?r3 = "projr (batch_step ?cb3 ?a Val ([0], [[1]]) demo_world None)"
  let ?cb = "demo_collab aux_model head_loss"
  let ?r = "projr (batch_step ?cb ?a Train ([0], [[1]]) demo_world None)"
  let ?cb2 = "demo_collab two_row_model head_loss"
  let ?r2 = "projr (batch_step ?cb2 ?a Train ([0, 1], [[1], [0]]) demo_world None)"
  have inc: "is_inception ?a \<and> Train = Train"
    by (simp add: demo_args_def)
  have "\<not> isl (batch_step ?cb ?a Train ([0], [[1]]) demo_world None)"
    by code_simp
  then have h: "batch_step ?cb ?a Train ([0], [[1]]) demo_world None = Inr ?r"
    by (rule projr_collapse)
  from batch_loss_formula [OF h] inc
  obtain out outputs aux s' l1 l2 where
    "model_call ?cb True (fst ([0::nat], [[1::real]])) (clear_grads ?cb demo_world) = Inr (out, s')"
    "unpack2 out = Inr (outputs, aux)"
    "criterion ?cb (Single outputs) (snd ([0::nat], [[1::real]])) = Inr l1"
    "criterion ?cb (Single aux) (snd ([0::nat], [[1::real]])) = Inr l2"
    "curr_loss ?r = l1 + 0.4 * l2"
    by blast
  then have v: "curr_loss ?r = 9/5"
    by (auto simp: demo_collab_def aux_model_def head_loss_def unpack2_def)
  have "\<not> isl (batch_step ?cb2 ?a Train ([0, 1], [[1], [0]]) demo_world None)"
    by code_simp
  then have h2: "batch_step ?cb2 ?a Train ([0, 1], [[1], [0]]) demo_world None = Inr ?r2"
    by (rule projr_collapse)
  from batch_loss_formula [OF h2] inc
  obtain out outputs aux s' l1 l2 where
    "model_call ?cb2 True (fst ([0::nat, 1], [[1::real], [0]])) (clear_grads ?cb2 demo_world)
       = Inr (out, s')"
    "unpack2 out = Inr (outputs, aux)"
    "criterion ?cb2 (Single outputs) (snd ([0::nat, 1], [[1::real], [0]])) = Inr l1"
    "criterion ?cb2 (Single aux) (snd ([0::nat, 1], [[1::real], [0]])) = Inr l2"
    "curr_loss ?r2 = l1 + 0.4 * l2"
    by blast
  then have v2: "curr_loss ?r2 = 9/5"
    by (auto simp: demo_collab_def two_row_model_def head_loss_def unpack2_def)
  have p2: "br_preds ?r2 = Vec [1]" by code_simp
  have e: "batch_step ?cb ?a Val ([0], [[1]]) demo_world None = Inl TypeError"
    by code_simp
  have "\<not> isl (batch_step ?cb3 ?a Val ([0], [[1]]) demo_world None)"
    by code_simp
  then have h3: "batch_step ?cb3 ?a Val ([0], [[1]]) demo_world None = Inr ?r3"
    by (rule projr_collapse)
  have ninc: "\<not> (is_inception ?a \<and> Val = Train)" by simp
  from batch_loss_formula [OF h3] ninc
  obtain outputs s' l where
    "model_call ?cb3 (Val = Train) (fst ([0::nat], [[1::real]])) (clear_grads ?cb3 demo_world)
       = Inr (Single outputs, s')"
    "criterion ?cb3 (Single (Mat outputs)) (snd ([0::nat], [[1::real]])) = Inr l"
    "curr_loss ?r3 = l"
    by blast
  then have v3: "curr_loss ?r3 = 1"
    by (auto simp: demo_collab_def score_model_def const_score_def head_loss_def)
  from h v h2 v2 p2 e h3 v3 show ?thesis by (intro conjI)
qed

subsection \<open>The statistics of a phase\<close>

lemma add_corrects_count: "add_corrects c n = TensorInt (corrects_count c + n)"
  by (cases c) simp_all

lemma run_batches_defined:
  "run_batches cb a ph bs acc = Inr acc' \<Longrightarrow>
   \<exists>rs. batch_results cb a ph bs (pa_world acc) (pa_prof acc) = Inr rs"
proof (induction bs arbitrary: acc)
  case Nil
  then show ?case by simp
next
  case (Cons b bs)
  from Cons.prems obtain r where
    r: "batch_step cb a ph b (pa_world acc) (pa_prof acc) = Inr r"
    and pl: "progress_line (step_i acc + 1) (br_preds r) = Inr ()"
    by (auto split: sum.splits)
  with Cons.prems Cons.IH show ?case
    by fastforce
qed

lemma run_batches_loss:
  "run_batches cb a ph bs acc = Inr acc' \<Longrightarrow>
   batch_results cb a ph bs (pa_world acc) (pa_prof acc) = Inr rs \<Longrightarrow>
   running_loss acc' = running_loss acc + (\<Sum>r\<leftarrow>rs. curr_loss r * real (batch_size r))"
proof (induction bs arbitrary: acc rs)
  case Nil
  then show ?case by simp
next
  case (Cons b bs)
  from Cons.prems obtain r rs' where
    r: "batch_step cb a ph b (pa_world acc) (pa_prof acc) = Inr r"
    and pl: "progress_line (step_i acc + 1) (br_preds r) = Inr ()"
    and rs': "batch_results cb a ph bs (br_world r) (br_prof r) = Inr rs'" and eq: "rs = r # rs'"
    by (auto split: sum.splits)
  from Cons.prems(1) r pl Cons.IH [where rs = rs'] rs' eq show ?case
    by simp
qed

lemma run_batches_corrects:
  "run_batches cb a ph bs acc = Inr acc' \<Longrightarrow>
   batch_results cb a ph bs (pa_world acc) (pa_prof acc) = Inr rs \<Longrightarrow>
   running_corrects acc' =
     (if bs = [] then running_corrects acc
      else TensorInt (corrects_count (running_corrects acc) + (\<Sum>r\<leftarrow>rs. curr_acc r)))"
proof (induction bs arbitrary: acc rs)
  case Nil
  then show ?case by simp
next
  case (Cons b bs)
  from Cons.prems obtain r rs' where
    r: "batch_step cb a ph b (pa_world acc) (pa_prof acc) = Inr r"
    and pl: "progress_line (step_i acc + 1) (br_preds r) = Inr ()"
    and rs': "batch_results cb a ph bs (br_world r) (br_prof r) = Inr rs'" and eq: "rs = r # rs'"
    by (auto split: sum.splits)
  from rs' have "bs = [] \<Longrightarrow> rs' = []" by auto
  with Cons.prems(1) r pl Cons.IH [where rs = rs'] rs' eq show ?case
    by (simp add: add_corrects_count)
qed

lemma run_batches_lists:
  "run_batches cb a ph bs acc = Inr acc' \<Longrightarrow>
   batch_results cb a ph bs (pa_world acc) (pa_prof acc) = Inr rs \<Longrightarrow>
   outputs_batch acc' = outputs_batch acc @ map br_preds rs
   \<and> targets_batch acc' = targets_batch acc @ map br_labels rs"
proof (induction bs arbitrary: acc rs)
  case Nil
  then show ?case by simp
next
  case (Cons b bs)
  from Cons.prems obtain r rs' where
    r: "batch_step cb a ph b (pa_world acc) (pa_prof acc) = Inr r"
    and pl: "progress_line (step_i acc + 1) (br_preds r) = Inr ()"
    and rs': "batch_results cb a ph bs (br_world r) (br_prof r) = Inr rs'" and eq: "rs = r # rs'"
    by (auto split: sum.splits)
  from Cons.prems(1) r pl Cons.IH [where rs = rs'] rs' eq show ?case
    by simp
qed

lemma batch_results_each:
  "batch_results cb a ph bs s pr = Inr rs \<Longrightarrow>
   map batch_size rs = map (\<lambda>b. length (fst b)) bs \<and> map br_labels rs = map snd bs
   \<and> (\<forall>r \<in> set rs. \<exists>m. tensor_eq (br_preds r) (br_labels r) = Inr m \<and> curr_acc r = torch_sum m)"
proof (induction bs arbitrary: s pr rs)
  case Nil
  then show ?case by simp
next
  case (Cons b bs)
  from Cons.prems obtain r rs' where
    r: "batch_step cb a ph b s pr = Inr r"
    and rs': "batch_results cb a ph bs (br_world r) (br_prof r) = Inr rs'"
    and eq: "rs = r # rs'"
    by (auto split: sum.splits)
  from batch_step_fields [OF r] Cons.IH [OF rs'] eq show ?case
    by auto
qed

lemma end_phase_parts:
  assumes "end_phase a dl ph st acc = Inr st'"
  shows "dataset_len (dl ph) \<noteq> 0
     \<and> fits_scalar (int (dataset_len (dl ph)) * num_classes a)
     \<and> (\<exists>c outs tgts. running_corrects acc = TensorInt c
          \<and> np_concatenate (outputs_batch acc) = Inr outs
          \<and> np_concatenate (map Mat (targets_batch acc)) = Inr tgts)"
proof -
  from assms have n: "dataset_len (dl ph) \<noteq> 0"
    by (auto simp: end_phase_def split: if_splits)
  from assms n obtain c where c: "running_corrects acc = TensorInt c"
    by (cases "running_corrects acc") (auto simp: end_phase_def Let_def)
  from assms n c have f: "fits_scalar (int (dataset_len (dl ph)) * num_classes a)"
    by (auto simp: end_phase_def Let_def split: if_splits)
  from assms n c f obtain outs where outs: "np_concatenate (outputs_batch acc) = Inr outs"
    by (cases "np_concatenate (outputs_batch acc)") (auto simp: end_phase_def Let_def)
  from assms n c f outs obtain tgts where
    tgts: "np_concatenate (map Mat (targets_batch acc)) = Inr tgts"
    by (cases "np_concatenate (map Mat (targets_batch acc))") (auto simp: end_phase_def Let_def)
  from n c f outs tgts show ?thesis by blast
qed

lemma end_phase_histories:
  assumes "end_phase a dl ph st acc = Inr st'"
  shows "dataset_len (dl ph) \<noteq> 0
     \<and> (\<exists>c outs tgts. running_corrects acc = TensorInt c
          \<and> np_concatenate (outputs_batch acc) = Inr outs
          \<and> np_concatenate (map Mat (targets_batch acc)) = Inr tgts
          \<and> acc_history ph st' = acc_history ph st
               @ [torch_div c (int (dataset_len (dl ph)) * num_classes a)]
          \<and> loss_history ph st' = loss_history ph st
               @ [running_loss acc / real (dataset_len (dl ph))]
          \<and> outputs_history ph st' = outputs_history ph st @ [outs]
          \<and> targets_history ph st' = targets_history ph st @ [tgts])"
proof -
  from end_phase_parts [OF assms] obtain c outs tgts where
    p: "dataset_len (dl ph) \<noteq> 0" "fits_scalar (int (dataset_len (dl ph)) * num_classes a)"
    "running_corrects acc = TensorInt c"
    "np_concatenate (outputs_batch acc) = Inr outs"
    "np_concatenate (map Mat (targets_batch acc)) = Inr tgts"
    by blast
  with assms have
    "acc_history ph st' = acc_history ph st
               @ [torch_div c (int (dataset_len (dl ph)) * num_classes a)]"
    "loss_history ph st' = loss_history ph st @ [running_loss acc / real (dataset_len (dl ph))]"
    "outputs_history ph st' = outputs_history ph st @ [outs]"
    "targets_history ph st' = targets_history ph st @ [tgts]"
    by (cases ph; auto simp: end_phase_def Let_def split: if_splits)+
  with p show ?thesis by simp
qed

lemma end_phase_frame:
  assumes "end_phase a dl ph st acc = Inr st'" and "ph' \<noteq> ph"
  shows "acc_history ph' st' = acc_history ph' st \<and> loss_history ph' st' = loss_history ph' st
     \<and> outputs_history ph' st' = outputs_history ph' st
     \<and> targets_history ph' st' = targets_history ph' st"
proof -
  from end_phase_parts [OF assms(1)] obtain c outs tgts where
    "dataset_len (dl ph) \<noteq> 0" "fits_scalar (int (dataset_len (dl ph)) * num_classes a)"
    "running_corrects acc = TensorInt c"
    "np_concatenate (outputs_batch acc) = Inr outs"
    "np_concatenate (map Mat (targets_batch acc)) = Inr tgts"
    by blast
  with assms show ?thesis
    by (cases ph; cases ph'; auto simp: end_phase_def Let_def split: if_splits)
qed

lemma end_phase_best_train:
  assumes "end_phase a dl Train st acc = Inr st'"
  shows "best_loss st' = best_loss st \<and> best_acc st' = best_acc st
     \<and> best_model_wts st' = best_model_wts st"
proof -
  from end_phase_parts [OF assms(1)] obtain c outs tgts where
    "dataset_len (dl Train) \<noteq> 0" "fits_scalar (int (dataset_len (dl Train)) * num_classes a)"
    "running_corrects acc = TensorInt c"
    "np_concatenate (outputs_batch acc) = Inr outs"
    "np_concatenate (map Mat (targets_batch acc)) = Inr tgts"
    by blast
  with assms show ?thesis
    by (auto simp: end_phase_def Let_def)
qed

lemma end_phase_best_val:
  assumes "end_phase a dl Val st acc = Inr st'"
  shows "\<exists>l x. val_loss_history st' = val_loss_history st @ [l]
     \<and> val_acc_history st' = val_acc_history st @ [x]
     \<and> best_loss st' = min (best_loss st) l
     \<and> (l < best_loss st \<longrightarrow> best_model_wts st' = weights (ts_model st') \<and> best_acc st' = x)
     \<and> (\<not> l < best_loss st \<longrightarrow> best_model_wts st' = best_model_wts st \<and> best_acc st' = best_acc st)"
proof -
  from end_phase_parts [OF assms(1)] obtain c outs tgts where
    "dataset_len (dl Val) \<noteq> 0" "fits_scalar (int (dataset_len (dl Val)) * num_classes a)"
    "running_corrects acc = TensorInt c"
    "np_concatenate (outputs_batch acc) = Inr outs"
    "np_concatenate (map Mat (targets_batch acc)) = Inr tgts"
    by blast
  with assms show ?thesis
    by (auto simp: end_phase_def Let_def split: if_splits)
qed

lemma run_phase_results:
  assumes "run_phase cb a dl epoch ph st = Inr st'"
  shows "\<exists>rs outs tgts. batch_results cb a ph (batches (dl ph) epoch)
                (set_mode cb ph (ts_model st)) (prof st) = Inr rs
      \<and> batches (dl ph) epoch \<noteq> [] \<and> dataset_len (dl ph) \<noteq> 0
      \<and> loss_history ph st' = loss_history ph st
           @ [(\<Sum>r\<leftarrow>rs. curr_loss r * real (batch_size r)) / real (dataset_len (dl ph))]
      \<and> acc_history ph st' = acc_history ph st
           @ [torch_div (\<Sum>r\<leftarrow>rs. curr_acc r) (int (dataset_len (dl ph)) * num_classes a)]
      \<and> np_concatenate (map br_preds rs) = Inr outs
      \<and> outputs_history ph st' = outputs_history ph st @ [outs]
      \<and> np_concatenate (map Mat (map snd (batches (dl ph) epoch))) = Inr tgts
      \<and> targets_history ph st' = targets_history ph st @ [tgts]"
proof -
  let ?bs = "batches (dl ph) epoch"
  let ?acc0 = "init_acc (set_mode cb ph (ts_model st)) (prof st)"
  from assms obtain acc where
    run: "run_batches cb a ph ?bs ?acc0 = Inr acc"
    and fin: "end_phase a dl ph st acc = Inr st'"
    by (auto simp: run_phase_def split: sum.splits)
  from run_batches_defined [OF run] obtain rs where
    rs: "batch_results cb a ph ?bs (set_mode cb ph (ts_model st)) (prof st) = Inr rs"
    by (auto simp: init_acc_def)
  then have rs0: "batch_results cb a ph ?bs (pa_world ?acc0) (pa_prof ?acc0) = Inr rs"
    by (simp add: init_acc_def)
  from run_batches_loss [OF run rs0]
  have loss: "running_loss acc = (\<Sum>r\<leftarrow>rs. curr_loss r * real (batch_size r))"
    by (simp add: init_acc_def)
  from run_batches_corrects [OF run rs0]
  have corr: "running_corrects acc =
          (if ?bs = [] then PyInt 0 else TensorInt (\<Sum>r\<leftarrow>rs. curr_acc r))"
    by (simp add: init_acc_def)
  from run_batches_lists [OF run rs0] batch_results_each [OF rs]
  have lists: "outputs_batch acc = map br_preds rs" "targets_batch acc = map snd ?bs"
    by (simp_all add: init_acc_def)
  from end_phase_histories [OF fin] obtain c outs tgts where
    n: "dataset_len (dl ph) \<noteq> 0"
    and c: "running_corrects acc = TensorInt c"
    and co: "np_concatenate (outputs_batch acc) = Inr outs"
    and ct: "np_concatenate (map Mat (targets_batch acc)) = Inr tgts"
    and ah: "acc_history ph st' = acc_history ph st
               @ [torch_div c (int (dataset_len (dl ph)) * num_classes a)]"
    and lh: "loss_history ph st' = loss_history ph st
               @ [running_loss acc / real (dataset_len (dl ph))]"
    and oh: "outputs_history ph st' = outputs_history ph st @ [outs]"
    and th: "targets_history ph st' = targets_history ph st @ [tgts]"
    by blast
  from c corr have ne: "?bs \<noteq> []" and ceq: "c = (\<Sum>r\<leftarrow>rs. curr_acc r)"
    by (auto split: if_splits)
  from rs ne n ah lh oh th co ct loss ceq lists show ?thesis
    by (intro exI [of _ rs] exI [of _ outs] exI [of _ tgts]) simp
qed

lemma run_phase_frame:
  assumes "run_phase cb a dl epoch ph st = Inr st'" and "ph' \<noteq> ph"
  shows "acc_history ph' st' = acc_history ph' st \<and> loss_history ph' st' = loss_history ph' st
     \<and> outputs_history ph' st' = outputs_history ph' st
     \<and> targets_history ph' st' = targets_history ph' st"
proof -
  from assms(1) obtain acc where "end_phase a dl ph st acc = Inr st'"
    by (auto simp: run_phase_def split: sum.splits)
  from end_phase_frame [OF this assms(2)] show ?thesis .
qed

text \<open>
  C5. When a phase of an epoch completes, with \<open>rs\<close> the results of its batches in
  order: the loss appended to the phase's history is the sum over the batches of (batch
  loss times batch size) divided by the size of the phase's dataset, and the accuracy
  appended is the number of positions where prediction and label agree, summed over the
  batches, divided by (dataset size times \<open>num_classes\<close>).
\<close>

theorem epoch_metrics_formula:
  assumes "run_phase cb a dataloaders epoch ph st = Inr st'"
  shows "\<exists>rs. batch_results cb a ph (batches (dataloaders ph) epoch)
                (set_mode cb ph (ts_model st)) (prof st) = Inr rs
      \<and> map batch_size rs = map (\<lambda>b. length (fst b)) (batches (dataloaders ph) epoch)
      \<and> (\<forall>r \<in> set rs. \<exists>m. tensor_eq (br_preds r) (br_labels r) = Inr m \<and> curr_acc r = torch_sum m)
      \<and> last (loss_history ph st') =
           (\<Sum>r\<leftarrow>rs. curr_loss r * real (batch_size r)) / real (dataset_len (dataloaders ph))
      \<and> last (acc_history ph st') =
           torch_div (\<Sum>r\<leftarrow>rs. curr_acc r) (int (dataset_len (dataloaders ph)) * num_classes a)
      \<and> (num_classes a \<noteq> 0 \<longrightarrow>
           last (acc_history ph st') =
             Fin (real (\<Sum>r\<leftarrow>rs. curr_acc r)
                    / (real (dataset_len (dataloaders ph)) * real_of_int (num_classes a))))"
proof -
  from run_phase_results [OF assms] obtain rs where
    rs: "batch_results cb a ph (batches (dataloaders ph) epoch)
           (set_mode cb ph (ts_model st)) (prof st) = Inr rs"
    and n: "dataset_len (dataloaders ph) \<noteq> 0"
    and lh: "loss_history ph st' = loss_history ph st
           @ [(\<Sum>r\<leftarrow>rs. curr_loss r * real (batch_size r)) / real (dataset_len (dataloaders ph))]"
    and ah: "acc_history ph st' = acc_history ph st
           @ [torch_div (\<Sum>r\<leftarrow>rs. curr_acc r) (int (dataset_len (dataloaders ph)) * num_classes a)]"
    by blast
  have "num_classes a \<noteq> 0 \<longrightarrow>
      torch_div (\<Sum>r\<leftarrow>rs. curr_acc r) (int (dataset_len (dataloaders ph)) * num_classes a) =
         Fin (real (\<Sum>r\<leftarrow>rs. curr_acc r)
                    / (real (dataset_len (dataloaders ph)) * real_of_int (num_classes a)))"
    using n by (simp add: torch_div_def)
  with lh ah rs batch_results_each [OF rs] show ?thesis
    by (intro exI [of _ rs]) simp
qed

theorem epoch_metrics_formula_witness:
  "run_phase (demo_collab (score_model 3 (const_score (6/10))) first_entry) (demo_args 1 3 False)
       (demo_loaders (demo_loader [([0, 1], [[1, 0, 1], [1, 1, 1]]), ([2], [[0, 1, 1]])] 3)
            (demo_loader [] 0)) 0 Train
       (init_state demo_world)
     = Inr (projr (run_phase (demo_collab (score_model 3 (const_score (6/10))) first_entry)
         (demo_args 1 3 False)
         (demo_loaders (demo_loader [([0, 1], [[1, 0, 1], [1, 1, 1]]), ([2], [[0, 1, 1]])] 3)
            (demo_loader [] 0)) 0 Train
         (init_state demo_world)))
   \<and> train_loss_history (projr (run_phase (demo_collab (score_model 3 (const_score (6/10))) first_entry)
         (demo_args 1 3 False)
         (demo_loaders (demo_loader [([0, 1], [[1, 0, 1], [1, 1, 1]]), ([2], [[0, 1, 1]])] 3)
            (demo_loader [] 0)) 0 Train
         (init_state demo_world))) = [6/10]
   \<and> train_acc_history (projr (run_phase (demo_collab (score_model 3 (const_score (6/10))) first_entry)
         (demo_args 1 3 False)
         (demo_loaders (demo_loader [([0, 1], [[1, 0, 1], [1, 1, 1]]), ([2], [[0, 1, 1]])] 3)
            (demo_loader [] 0)) 0 Train
         (init_state demo_world))) = [Fin (7/9)]"
proof -
  let ?run = "run_phase (demo_collab (score_model 3 (const_score (6/10))) first_entry)
         (demo_args 1 3 False)
         (demo_loaders (demo_loader [([0, 1], [[1, 0, 1], [1, 1, 1]]), ([2], [[0, 1, 1]])] 3)
            (demo_loader [] 0)) 0 Train
         (init_state demo_world)"
  have "\<not> isl ?run" by code_simp
  then have h: "?run = Inr (projr ?run)" by (rule projr_collapse)
  have l: "train_loss_history (projr ?run) = [6/10]" by code_simp
  have c: "train_acc_history (projr ?run) = [Fin (7/9)]" by code_simp
  from epoch_metrics_formula [OF h] l c h show ?thesis by simp
qed

subsection \<open>Shapes and the accuracy bound\<close>

lemma preds_of_dim0: "dim0 (preds_of t) = dim0 t"
  by (cases t) (simp_all add: preds_of_eq)

lemma collect_Inr: "collect (map Inr xs) = Inr xs"
  by (induction xs) simp_all

lemma tensor_eq_same_shape:
  assumes "length p = length l"
    and "\<forall>row \<in> set p. length row = c" and "\<forall>row \<in> set l. length row = c"
  shows "tensor_eq (Mat p) l = Inr (map2 (\<lambda>r s. map2 (\<lambda>x y. x = y) r s) p l)"
proof -
  have inner: "map2 (\<lambda>r s. broadcast (\<lambda>x y. x = y) r s) p l
          = map Inr (map2 (\<lambda>r s. map2 (\<lambda>x y. x = y) r s) p l)"
    using assms
    by (induction p l rule: list_induct2) (simp_all add: broadcast_def)
  have outer: "broadcast (\<lambda>r s. broadcast (\<lambda>x y. x = y) r s) p l
          = Inr (map2 (\<lambda>r s. broadcast (\<lambda>x y. x = y) r s) p l)"
    using assms(1) by (subst broadcast_def) simp
  show ?thesis
    by (simp only: tensor_eq_def rows_of.simps outer sum.case inner collect_Inr)
qed

lemma torch_sum_le: "torch_sum m \<le> sum_list (map length m)"
  unfolding torch_sum_def
  by (induction m) (simp_all add: add_mono)

lemma sum_list_const_length:
  "\<forall>row \<in> set m. length row = c \<Longrightarrow> sum_list (map length m) = length m * c"
  by (induction m) simp_all

lemma shaped_Mat:
  assumes "shaped b c t"
  obtains m where "t = Mat m" "length m = b" "\<forall>row \<in> set m. length row = c"
  using assms by (cases t) (auto simp: list_all_iff)

lemma same_shape_acc_le:
  assumes p: "shaped b c (br_preds r)" and l: "shaped b c (Mat (br_labels r))"
    and m: "tensor_eq (br_preds r) (br_labels r) = Inr m" and acc: "curr_acc r = torch_sum m"
  shows "curr_acc r \<le> b * c"
proof -
  from p obtain pm where pm: "br_preds r = Mat pm" "length pm = b"
    "\<forall>row \<in> set pm. length row = c"
    by (rule shaped_Mat)
  from l have lm: "length (br_labels r) = b" "\<forall>row \<in> set (br_labels r). length row = c"
    by (simp_all add: list_all_iff)
  from pm(2) lm(1) have len: "length pm = length (br_labels r)" by simp
  from tensor_eq_same_shape [OF len pm(3) lm(2)] m pm(1)
  have meq: "m = map2 (\<lambda>r s. map2 (\<lambda>x y. x = y) r s) pm (br_labels r)"
    by simp
  have "\<forall>row \<in> set m. length row = c"
  proof
    fix row assume "row \<in> set m"
    with meq obtain u v where uv: "(u, v) \<in> set (zip pm (br_labels r))"
      and row: "row = map2 (\<lambda>x y. x = y) u v"
      by auto
    from uv have "u \<in> set pm" "v \<in> set (br_labels r)"
      by (auto dest: set_zip_leftD set_zip_rightD)
    with row show "length row = c"
      using pm(3) lm(2) by simp
  qed
  then have "sum_list (map length m) = length m * c"
    by (rule sum_list_const_length)
  moreover have "length m = b"
    using meq len pm(2) by simp
  ultimately show ?thesis
    using torch_sum_le [of m] acc by simp
qed

lemma batch_results_member:
  "batch_results cb a ph bs s pr = Inr rs \<Longrightarrow> r \<in> set rs \<Longrightarrow>
   \<exists>b s' pr'. batch_step cb a ph b s' pr' = Inr r"
proof (induction bs arbitrary: s pr rs)
  case Nil
  then show ?case by simp
next
  case (Cons b bs)
  from Cons.prems(1) obtain r0 rs' where
    r0: "batch_step cb a ph b s pr = Inr r0"
    and rs': "batch_results cb a ph bs (br_world r0) (br_prof r0) = Inr rs'"
    and eq: "rs = r0 # rs'"
    by (auto split: sum.splits)
  show ?case
  proof (cases "r = r0")
    case True
    with r0 show ?thesis by blast
  next
    case False
    with Cons.prems(2) eq have "r \<in> set rs'" by simp
    from Cons.IH [OF rs' this] show ?thesis .
  qed
qed

lemma sum_list_le_pointwise:
  "\<forall>r \<in> set rs. f r \<le> g r \<Longrightarrow> sum_list (map f rs) \<le> (sum_list (map g rs) :: nat)"
  by (induction rs) (simp_all add: add_mono)

lemma same_shape_total_le:
  assumes rs: "batch_results cb a ph bs s pr = Inr rs"
    and shape: "\<forall>r \<in> set rs. shaped (batch_size r) c (br_preds r)
                    \<and> shaped (batch_size r) c (Mat (br_labels r))"
  shows "(\<Sum>r\<leftarrow>rs. curr_acc r) \<le> batch_sizes bs * c"
proof -
  have "\<forall>r \<in> set rs. curr_acc r \<le> batch_size r * c"
  proof
    fix r assume r: "r \<in> set rs"
    from batch_results_member [OF rs r] obtain b s' pr' where
      "batch_step cb a ph b s' pr' = Inr r"
      by blast
    from batch_step_fields [OF this] obtain m where
      m: "tensor_eq (br_preds r) (br_labels r) = Inr m" "curr_acc r = torch_sum m"
      by blast
    from shape r have "shaped (batch_size r) c (br_preds r)"
      "shaped (batch_size r) c (Mat (br_labels r))"
      by blast+
    from same_shape_acc_le [OF this m] show "curr_acc r \<le> batch_size r * c" .
  qed
  then have "(\<Sum>r\<leftarrow>rs. curr_acc r) \<le> (\<Sum>r\<leftarrow>rs. batch_size r * c)"
    by (rule sum_list_le_pointwise)
  also have "\<dots> = sum_list (map batch_size rs) * c"
    by (induction rs) (simp_all add: algebra_simps)
  also have "sum_list (map batch_size rs) = batch_sizes bs"
    using batch_results_each [OF rs] by (simp add: batch_sizes_def)
  finally show ?thesis .
qed

text \<open>
  C6, as the code has it. The accuracy of a phase lies in \<open>[0, 1]\<close> when, besides the
  predictions and labels being 0 or 1 and the dataset size being the sum of the batch
  sizes, the shapes are what the parameters say: \<open>num_classes\<close> is positive and, in
  every batch, the predictions (they have the shape of the raw output) and the label
  tensor have one row per input with \<open>num_classes\<close> entries.
\<close>

theorem epoch_acc_bounds:
  assumes run: "run_phase cb a dataloaders epoch ph st = Inr st'"
    and res: "batch_results cb a ph (batches (dataloaders ph) epoch)
                (set_mode cb ph (ts_model st)) (prof st) = Inr rs"
    and bin: "\<forall>r \<in> set rs. binary (br_preds r) \<and> binary (Mat (br_labels r))"
    and n: "dataset_len (dataloaders ph) = batch_sizes (batches (dataloaders ph) epoch)"
    and c: "0 < num_classes a"
    and shape: "\<forall>r \<in> set rs. shaped (batch_size r) (nat (num_classes a)) (br_preds r)
                    \<and> shaped (batch_size r) (nat (num_classes a)) (Mat (br_labels r))"
  shows "\<exists>x. last (acc_history ph st') = Fin x \<and> 0 \<le> x \<and> x \<le> 1"
proof -
  let ?bs = "batches (dataloaders ph) epoch"
  let ?N = "dataset_len (dataloaders ph)"
  from run_phase_results [OF run] res obtain
    n0: "?N \<noteq> 0"
    and ah: "acc_history ph st' = acc_history ph st
           @ [torch_div (\<Sum>r\<leftarrow>rs. curr_acc r) (int ?N * num_classes a)]"
    by auto
  let ?S = "\<Sum>r\<leftarrow>rs. curr_acc r"
  from same_shape_total_le [OF res shape] n
  have le: "?S \<le> ?N * nat (num_classes a)"
    by simp
  from c n0 have d: "int ?N * num_classes a \<noteq> 0" "0 < real ?N * real_of_int (num_classes a)"
    by simp_all
  let ?x = "real ?S / (real ?N * real_of_int (num_classes a))"
  from d have acc: "last (acc_history ph st') = Fin ?x"
    using ah by (simp add: torch_div_def)
  from le have "real ?S \<le> real (?N * nat (num_classes a))"
    by (rule of_nat_mono)
  also from c have "\<dots> = real ?N * real_of_int (num_classes a)"
    by simp
  finally have "?x \<le> 1"
    using d(2) by simp
  moreover have "0 \<le> ?x"
    using d(2) by simp
  ultimately show ?thesis
    using acc by blast
qed

theorem epoch_acc_bounds_witness:
  "run_phase (demo_collab (score_model 3 (const_score (6/10))) first_entry) (demo_args 1 3 False)
       (demo_loaders (demo_loader [([0, 1], [[1, 0, 1], [1, 1, 1]]), ([2], [[0, 1, 1]])] 3)
          (demo_loader [] 0)) 0 Train (init_state demo_world)
     = Inr (projr (run_phase (demo_collab (score_model 3 (const_score (6/10))) first_entry)
         (demo_args 1 3 False)
         (demo_loaders (demo_loader [([0, 1], [[1, 0, 1], [1, 1, 1]]), ([2], [[0, 1, 1]])] 3)
            (demo_loader [] 0)) 0 Train (init_state demo_world)))
   \<and> map br_preds (projr (batch_results
         (demo_collab (score_model 3 (const_score (6/10))) first_entry) (demo_args 1 3 False) Train
         [([0, 1], [[1, 0, 1], [1, 1, 1]]), ([2], [[0, 1, 1]])] demo_world None))
       = [Mat [[1, 1, 1], [1, 1, 1]], Mat [[1, 1, 1]]]
   \<and> map br_labels (projr (batch_results
         (demo_collab (score_model 3 (const_score (6/10))) first_entry) (demo_args 1 3 False) Train
         [([0, 1], [[1, 0, 1], [1, 1, 1]]), ([2], [[0, 1, 1]])] demo_world None))
       = [[[1, 0, 1], [1, 1, 1]], [[0, 1, 1]]]
   \<and> map batch_size (projr (batch_results
         (demo_collab (score_model 3 (const_score (6/10))) first_entry) (demo_args 1 3 False) Train
         [([0, 1], [[1, 0, 1], [1, 1, 1]]), ([2], [[0, 1, 1]])] demo_world None))
       = [2, 1]
   \<and> (3::nat) = batch_sizes [([0::nat, 1], [[1, 0, 1], [1, 1, 1]]), ([2], [[0, 1, 1]])]
   \<and> (0::int) < num_classes (demo_args 1 3 False)
   \<and> train_acc_history (projr (run_phase (demo_collab (score_model 3 (const_score (6/10))) first_entry)
         (demo_args 1 3 False)
         (demo_loaders (demo_loader [([0, 1], [[1, 0, 1], [1, 1, 1]]), ([2], [[0, 1, 1]])] 3)
            (demo_loader [] 0)) 0 Train (init_state demo_world))) = [Fin (7/9)]
   \<and> (0::real) \<le> 7/9 \<and> (7/9::real) \<le> 1"
proof -
  let ?cb = "demo_collab (score_model 3 (const_score (6/10))) first_entry"
  let ?a = "demo_args 1 3 False"
  let ?bs = "[([0::nat, 1], [[1, 0, 1::real], [1, 1, 1]]), ([2], [[0, 1, 1]])]"
  let ?dl = "demo_loaders (demo_loader ?bs 3) (demo_loader [] 0)"
  let ?st = "init_state demo_world :: (nat, unit, nat) train_state"
  let ?run = "run_phase ?cb ?a ?dl 0 Train ?st"
  let ?res = "batch_results ?cb ?a Train ?bs demo_world None"
  have "\<not> isl ?run" by code_simp
  then have h: "?run = Inr (projr ?run)" by (rule projr_collapse)
  have "\<not> isl ?res" by code_simp
  then have r: "?res = Inr (projr ?res)" by (rule projr_collapse)
  have start: "batches (?dl Train) 0 = ?bs" "set_mode ?cb Train (ts_model ?st) = demo_world"
    "prof ?st = None"
    by (simp_all add: demo_loader_def set_mode_def demo_collab_def init_state_def)
  from r start have res: "batch_results ?cb ?a Train (batches (?dl Train) 0)
       (set_mode ?cb Train (ts_model ?st)) (prof ?st) = Inr (projr ?res)"
    by simp
  have p: "map br_preds (projr ?res) = [Mat [[1, 1, 1], [1, 1, 1]], Mat [[1, 1, 1]]]"
    by code_simp
  have l: "map br_labels (projr ?res) = [[[1, 0, 1], [1, 1, 1]], [[0, 1, 1]]]"
    by code_simp
  have z: "map batch_size (projr ?res) = [2, 1]"
    by code_simp
  have "list_all (\<lambda>r. binary (br_preds r) \<and> binary (Mat (br_labels r))) (projr ?res)"
    by code_simp
  then have bin: "\<forall>r \<in> set (projr ?res). binary (br_preds r) \<and> binary (Mat (br_labels r))"
    by (simp add: list_all_iff)
  have "list_all (\<lambda>r. shaped (batch_size r) (nat (num_classes ?a)) (br_preds r)
          \<and> shaped (batch_size r) (nat (num_classes ?a)) (Mat (br_labels r))) (projr ?res)"
    by code_simp
  then have shape: "\<forall>r \<in> set (projr ?res).
        shaped (batch_size r) (nat (num_classes ?a)) (br_preds r)
          \<and> shaped (batch_size r) (nat (num_classes ?a)) (Mat (br_labels r))"
    by (simp add: list_all_iff)
  have n: "dataset_len (?dl Train) = batch_sizes (batches (?dl Train) 0)"
    by (simp add: demo_loader_def batch_sizes_def)
  have n3: "(3::nat) = batch_sizes ?bs"
    by (simp add: batch_sizes_def)
  have c: "0 < num_classes ?a" by (simp add: demo_args_def)
  have v: "train_acc_history (projr ?run) = [Fin (7/9)]" by code_simp
  have b: "(0::real) \<le> 7/9" "(7/9::real) \<le> 1" by simp_all
  from epoch_acc_bounds [OF h res bin n c shape] h p l z n3 c v b show ?thesis
    by blast
qed

text \<open>
  C6 as stated fails, in three ways, each with predictions and labels that are 0 or 1 and
  a dataset as large as the sum of the batch sizes. \<open>num_classes\<close> is a parameter of its
  own: one sample with two classes, both predicted right, and \<open>num_classes = 1\<close> give
  the accuracy 2. The label tensor is one too: one input with two label rows, against
  which the single prediction row is broadcast, gives 2 again. And \<open>num_classes = 0\<close>
  with tensors without columns gives \<open>nan\<close>.
\<close>

theorem epoch_acc_above_one:
  "run_phase (demo_collab (score_model 2 (const_score (9/10))) first_entry) (demo_args 1 1 False)
       (demo_loaders (demo_loader [([0], [[1, 1]])] 1) (demo_loader [([0], [[1, 1]])] 1)) 0 Val
       (init_state demo_world)
     = Inr (projr (run_phase (demo_collab (score_model 2 (const_score (9/10))) first_entry)
         (demo_args 1 1 False)
         (demo_loaders (demo_loader [([0], [[1, 1]])] 1) (demo_loader [([0], [[1, 1]])] 1)) 0 Val
         (init_state demo_world)))
   \<and> val_outputs_history (projr (run_phase (demo_collab (score_model 2 (const_score (9/10))) first_entry)
         (demo_args 1 1 False)
         (demo_loaders (demo_loader [([0], [[1, 1]])] 1) (demo_loader [([0], [[1, 1]])] 1)) 0 Val
         (init_state demo_world))) = [Mat [[1, 1]]]
   \<and> val_targets_history (projr (run_phase (demo_collab (score_model 2 (const_score (9/10))) first_entry)
         (demo_args 1 1 False)
         (demo_loaders (demo_loader [([0], [[1, 1]])] 1) (demo_loader [([0], [[1, 1]])] 1)) 0 Val
         (init_state demo_world))) = [Mat [[1, 1]]]
   \<and> dataset_len (demo_loader [([0], [[1, 1]])] 1) = batch_sizes [([0::nat], [[1, 1]])]
   \<and> val_acc_history (projr (run_phase (demo_collab (score_model 2 (const_score (9/10))) first_entry)
         (demo_args 1 1 False)
         (demo_loaders (demo_loader [([0], [[1, 1]])] 1) (demo_loader [([0], [[1, 1]])] 1)) 0 Val
         (init_state demo_world))) = [Fin 2]
   \<and> \<not> (2::real) \<le> 1
   \<and> run_phase (demo_collab pooled_model first_entry) (demo_args 1 1 False)
       (demo_loaders (demo_loader [([0], [[1], [1]])] 1) (demo_loader [([0], [[1], [1]])] 1)) 0 Val
       (init_state demo_world)
     = Inr (projr (run_phase (demo_collab pooled_model first_entry) (demo_args 1 1 False)
         (demo_loaders (demo_loader [([0], [[1], [1]])] 1) (demo_loader [([0], [[1], [1]])] 1)) 0 Val
         (init_state demo_world)))
   \<and> val_outputs_history (projr (run_phase (demo_collab pooled_model first_entry)
         (demo_args 1 1 False)
         (demo_loaders (demo_loader [([0], [[1], [1]])] 1) (demo_loader [([0], [[1], [1]])] 1)) 0 Val
         (init_state demo_world))) = [Mat [[1]]]
   \<and> val_targets_history (projr (run_phase (demo_collab pooled_model first_entry)
         (demo_args 1 1 False)
         (demo_loaders (demo_loader [([0], [[1], [1]])] 1) (demo_loader [([0], [[1], [1]])] 1)) 0 Val
         (init_state demo_world))) = [Mat [[1], [1]]]
   \<and> dataset_len (demo_loader [([0], [[1], [1]])] 1) = batch_sizes [([0::nat], [[1], [1]])]
   \<and> val_acc_history (projr (run_phase (demo_collab pooled_model first_entry)
         (demo_args 1 1 False)
         (demo_loaders (demo_loader [([0], [[1], [1]])] 1) (demo_loader [([0], [[1], [1]])] 1)) 0 Val
         (init_state demo_world))) = [Fin 2]
   \<and> run_phase (demo_collab (score_model 0 (const_score (9/10))) (flat_loss 1)) (demo_args 1 0 False)
       (demo_loaders (demo_loader [([0], [[]])] 1) (demo_loader [([0], [[]])] 1)) 0 Val
       (init_state demo_world)
     = Inr (projr (run_phase (demo_collab (score_model 0 (const_score (9/10))) (flat_loss 1))
         (demo_args 1 0 False)
         (demo_loaders (demo_loader [([0], [[]])] 1) (demo_loader [([0], [[]])] 1)) 0 Val
         (init_state demo_world)))
   \<and> val_outputs_history (projr (run_phase (demo_collab (score_model 0 (const_score (9/10))) (flat_loss 1))
         (demo_args 1 0 False)
         (demo_loaders (demo_loader [([0], [[]])] 1) (demo_loader [([0], [[]])] 1)) 0 Val
         (init_state demo_world))) = [Mat [[]]]
   \<and> val_targets_history (projr (run_phase (demo_collab (score_model 0 (const_score (9/10))) (flat_loss 1))
         (demo_args 1 0 False)
         (demo_loaders (demo_loader [([0], [[]])] 1) (demo_loader [([0], [[]])] 1)) 0 Val
         (init_state demo_world))) = [Mat [[]]]
   \<and> dataset_len (demo_loader [([0], [[]])] 1) = batch_sizes [([0::nat], [[]])]
   \<and> val_acc_history (projr (run_phase (demo_collab (score_model 0 (const_score (9/10))) (flat_loss 1))
         (demo_args 1 0 False)
         (demo_loaders (demo_loader [([0], [[]])] 1) (demo_loader [([0], [[]])] 1)) 0 Val
         (init_state demo_world))) = [NaN]"
proof -
  let ?st = "init_state demo_world :: (nat, unit, nat) train_state"
  let ?r1 = "run_phase (demo_collab (score_model 2 (const_score (9/10))) first_entry)
         (demo_args 1 1 False)
         (demo_loaders (demo_loader [([0], [[1, 1]])] 1) (demo_loader [([0], [[1, 1]])] 1)) 0 Val ?st"
  let ?r2 = "run_phase (demo_collab pooled_model first_entry) (demo_args 1 1 False)
         (demo_loaders (demo_loader [([0], [[1], [1]])] 1) (demo_loader [([0], [[1], [1]])] 1)) 0 Val ?st"
  let ?r3 = "run_phase (demo_collab (score_model 0 (const_score (9/10))) (flat_loss 1))
         (demo_args 1 0 False)
         (demo_loaders (demo_loader [([0], [[]])] 1) (demo_loader [([0], [[]])] 1)) 0 Val ?st"
  have "\<not> isl ?r1" by code_simp
  then have h1: "?r1 = Inr (projr ?r1)" by (rule projr_collapse)
  have o1: "val_outputs_history (projr ?r1) = [Mat [[1, 1]]]" by code_simp
  have t1: "val_targets_history (projr ?r1) = [Mat [[1, 1]]]" by code_simp
  have v1: "val_acc_history (projr ?r1) = [Fin 2]" by code_simp
  have "\<not> isl ?r2" by code_simp
  then have h2: "?r2 = Inr (projr ?r2)" by (rule projr_collapse)
  have o2: "val_outputs_history (projr ?r2) = [Mat [[1]]]" by code_simp
  have t2: "val_targets_history (projr ?r2) = [Mat [[1], [1]]]" by code_simp
  have v2: "val_acc_history (projr ?r2) = [Fin 2]" by code_simp
  have "\<not> isl ?r3" by code_simp
  then have h3: "?r3 = Inr (projr ?r3)" by (rule projr_collapse)
  have o3: "val_outputs_history (projr ?r3) = [Mat [[]]]" by code_simp
  have t3: "val_targets_history (projr ?r3) = [Mat [[]]]" by code_simp
  have v3: "val_acc_history (projr ?r3) = [NaN]" by code_simp
  have n: "dataset_len (demo_loader [([0], [[1, 1]])] 1) = batch_sizes [([0::nat], [[1, 1]])]"
    "dataset_len (demo_loader [([0], [[1], [1]])] 1) = batch_sizes [([0::nat], [[1], [1]])]"
    "dataset_len (demo_loader [([0], [[]])] 1) = batch_sizes [([0::nat], [[]])]"
    by (simp_all add: demo_loader_def batch_sizes_def)
  have "\<not> (2::real) \<le> 1" by simp
  with h1 o1 t1 v1 h2 o2 t2 v2 h3 o3 t3 v3 n show ?thesis
    by (intro conjI)
qed

subsection \<open>The histories\<close>

lemma sum_list_dim0_vec:
  "list_all is_vec ts \<Longrightarrow> length (concat (map entries ts)) = sum_list (map dim0 ts)"
proof (induction ts)
  case Nil
  then show ?case by simp
next
  case (Cons t ts)
  then show ?case by (cases t) simp_all
qed

lemma sum_list_dim0_mat:
  "\<not> list_ex is_vec ts \<Longrightarrow> length (concat (map rows_of ts)) = sum_list (map dim0 ts)"
proof (induction ts)
  case Nil
  then show ?case by simp
next
  case (Cons t ts)
  then show ?case by (cases t) simp_all
qed

lemma np_concatenate_dim0:
  assumes "np_concatenate ts = Inr t"
  shows "dim0 t = sum_list (map dim0 ts)"
proof (cases "list_all is_vec ts")
  case True
  with assms have "t = Vec (concat (map entries ts))"
    by (auto simp: np_concatenate_def split: if_splits)
  with True show ?thesis by (simp add: sum_list_dim0_vec)
next
  case False
  with assms have nv: "\<not> list_ex is_vec ts" and "t = Mat (concat (map rows_of ts))"
    by (auto simp: np_concatenate_def Let_def split: if_splits)
  then show ?thesis by (simp add: sum_list_dim0_mat)
qed

lemma run_epoch_parts:
  assumes "run_epoch cb a dl epoch st = Inr st'"
  shows "\<exists>st1 st2 s. run_phase cb a dl epoch Train st = Inr st1
           \<and> run_phase cb a dl epoch Val st1 = Inr st2
           \<and> scheduler_step cb (ts_model st2) = Inr s \<and> st' = st2\<lparr>ts_model := s\<rparr>"
  using assms
  by (auto simp: run_epoch_def split: sum.splits)

lemma run_epoch_histories:
  assumes "run_epoch cb a dl epoch st = Inr st'"
  shows "\<exists>st0 rs outs tgts.
        (ph = Train \<and> st0 = st \<or> ph = Val \<and> run_phase cb a dl epoch Train st = Inr st0)
      \<and> batch_results cb a ph (batches (dl ph) epoch)
            (set_mode cb ph (ts_model st0)) (prof st0) = Inr rs
      \<and> loss_history ph st' = loss_history ph st
           @ [(\<Sum>r\<leftarrow>rs. curr_loss r * real (batch_size r)) / real (dataset_len (dl ph))]
      \<and> acc_history ph st' = acc_history ph st
           @ [torch_div (\<Sum>r\<leftarrow>rs. curr_acc r) (int (dataset_len (dl ph)) * num_classes a)]
      \<and> np_concatenate (map br_preds rs) = Inr outs
      \<and> outputs_history ph st' = outputs_history ph st @ [outs]
      \<and> np_concatenate (map Mat (map snd (batches (dl ph) epoch))) = Inr tgts
      \<and> targets_history ph st' = targets_history ph st @ [tgts]"
proof -
  from run_epoch_parts [OF assms] obtain st1 st2 s where
    tr: "run_phase cb a dl epoch Train st = Inr st1"
    and va: "run_phase cb a dl epoch Val st1 = Inr st2"
    and st': "st' = st2\<lparr>ts_model := s\<rparr>"
    by blast
  show ?thesis
  proof (cases ph)
    case Train
    from run_phase_results [OF tr] obtain rs outs tgts where
      "batch_results cb a Train (batches (dl Train) epoch)
                (set_mode cb Train (ts_model st)) (prof st) = Inr rs"
      "loss_history Train st1 = loss_history Train st
           @ [(\<Sum>r\<leftarrow>rs. curr_loss r * real (batch_size r)) / real (dataset_len (dl Train))]"
      "acc_history Train st1 = acc_history Train st
           @ [torch_div (\<Sum>r\<leftarrow>rs. curr_acc r) (int (dataset_len (dl Train)) * num_classes a)]"
      "np_concatenate (map br_preds rs) = Inr outs"
      "outputs_history Train st1 = outputs_history Train st @ [outs]"
      "np_concatenate (map Mat (map snd (batches (dl Train) epoch))) = Inr tgts"
      "targets_history Train st1 = targets_history Train st @ [tgts]"
      by blast
    moreover from run_phase_frame [OF va, of Train] st'
    have "acc_history Train st' = acc_history Train st1"
      "loss_history Train st' = loss_history Train st1"
      "outputs_history Train st' = outputs_history Train st1"
      "targets_history Train st' = targets_history Train st1"
      by simp_all
    ultimately show ?thesis
      unfolding Train
      by - (rule exI [of _ st], rule exI [of _ rs], rule exI [of _ outs], rule exI [of _ tgts],
            simp)
  next
    case Val
    from run_phase_results [OF va] obtain rs outs tgts where
      "batch_results cb a Val (batches (dl Val) epoch)
                (set_mode cb Val (ts_model st1)) (prof st1) = Inr rs"
      "loss_history Val st2 = loss_history Val st1
           @ [(\<Sum>r\<leftarrow>rs. curr_loss r * real (batch_size r)) / real (dataset_len (dl Val))]"
      "acc_history Val st2 = acc_history Val st1
           @ [torch_div (\<Sum>r\<leftarrow>rs. curr_acc r) (int (dataset_len (dl Val)) * num_classes a)]"
      "np_concatenate (map br_preds rs) = Inr outs"
      "outputs_history Val st2 = outputs_history Val st1 @ [outs]"
      "np_concatenate (map Mat (map snd (batches (dl Val) epoch))) = Inr tgts"
      "targets_history Val st2 = targets_history Val st1 @ [tgts]"
      by blast
    moreover from run_phase_frame [OF tr, of Val]
    have "acc_history Val st1 = acc_history Val st"
      "loss_history Val st1 = loss_history Val st"
      "outputs_history Val st1 = outputs_history Val st"
      "targets_history Val st1 = targets_history Val st"
      by simp_all
    ultimately show ?thesis
      unfolding Val st' using tr
      by - (rule exI [of _ st1], rule exI [of _ rs], rule exI [of _ outs], rule exI [of _ tgts],
            simp)
  qed
qed

text \<open>
  C7, as the code has it. In every epoch each of the four history lists of each phase
  receives exactly one entry. The concatenated prediction array and the concatenated label
  array of a phase are as long as the per-batch arrays taken together: as long as the sum
  of the batch sizes where, in every batch of the phase, the array has one row per input
  (the batch size is \<^verbatim>\<open>inputs.size(0)\<close>).
\<close>

theorem history_entries:
  assumes "run_epoch cb a dataloaders epoch st = Inr st'"
  shows "length (acc_history ph st') = Suc (length (acc_history ph st))
      \<and> length (loss_history ph st') = Suc (length (loss_history ph st))
      \<and> length (outputs_history ph st') = Suc (length (outputs_history ph st))
      \<and> length (targets_history ph st') = Suc (length (targets_history ph st))
      \<and> (\<exists>st0 rs.
            (ph = Train \<and> st0 = st
               \<or> ph = Val \<and> run_phase cb a dataloaders epoch Train st = Inr st0)
          \<and> batch_results cb a ph (batches (dataloaders ph) epoch)
                (set_mode cb ph (ts_model st0)) (prof st0) = Inr rs
          \<and> dim0 (last (targets_history ph st')) = (\<Sum>r\<leftarrow>rs. length (br_labels r))
          \<and> dim0 (last (outputs_history ph st')) = (\<Sum>r\<leftarrow>rs. dim0 (br_preds r))
          \<and> ((\<forall>r \<in> set rs. length (br_labels r) = batch_size r) \<longrightarrow>
                 dim0 (last (targets_history ph st')) = batch_sizes (batches (dataloaders ph) epoch))
          \<and> ((\<forall>r \<in> set rs. dim0 (br_preds r) = batch_size r) \<longrightarrow>
                 dim0 (last (outputs_history ph st')) = batch_sizes (batches (dataloaders ph) epoch)))"
proof -
  let ?bs = "batches (dataloaders ph) epoch"
  from run_epoch_histories [OF assms, of ph] obtain st0 rs outs tgts where
    st0: "ph = Train \<and> st0 = st \<or> ph = Val \<and> run_phase cb a dataloaders epoch Train st = Inr st0"
    and rs: "batch_results cb a ph ?bs (set_mode cb ph (ts_model st0)) (prof st0) = Inr rs"
    and lh: "loss_history ph st' = loss_history ph st
           @ [(\<Sum>r\<leftarrow>rs. curr_loss r * real (batch_size r)) / real (dataset_len (dataloaders ph))]"
    and ah: "acc_history ph st' = acc_history ph st
           @ [torch_div (\<Sum>r\<leftarrow>rs. curr_acc r) (int (dataset_len (dataloaders ph)) * num_classes a)]"
    and co: "np_concatenate (map br_preds rs) = Inr outs"
    and oh: "outputs_history ph st' = outputs_history ph st @ [outs]"
    and ct: "np_concatenate (map Mat (map snd ?bs)) = Inr tgts"
    and th: "targets_history ph st' = targets_history ph st @ [tgts]"
    by blast
  note each = batch_results_each [OF rs]
  from each have sizes: "sum_list (map batch_size rs) = batch_sizes ?bs"
    by (simp add: batch_sizes_def)
  from each have labs: "map snd ?bs = map br_labels rs"
    by simp
  have "dim0 tgts = sum_list (map dim0 (map Mat (map br_labels rs)))"
    using np_concatenate_dim0 [OF ct] labs by simp
  then have dt: "dim0 tgts = (\<Sum>r\<leftarrow>rs. length (br_labels r))"
    by (simp add: o_def)
  have "dim0 outs = sum_list (map dim0 (map br_preds rs))"
    by (rule np_concatenate_dim0 [OF co])
  then have d: "dim0 outs = (\<Sum>r\<leftarrow>rs. dim0 (br_preds r))"
    by (simp add: o_def)
  have ct': "(\<forall>r \<in> set rs. length (br_labels r) = batch_size r) \<longrightarrow> dim0 tgts = batch_sizes ?bs"
  proof
    assume "\<forall>r \<in> set rs. length (br_labels r) = batch_size r"
    then have "map (\<lambda>r. length (br_labels r)) rs = map batch_size rs" by simp
    with dt sizes show "dim0 tgts = batch_sizes ?bs" by simp
  qed
  have co': "(\<forall>r \<in> set rs. dim0 (br_preds r) = batch_size r) \<longrightarrow> dim0 outs = batch_sizes ?bs"
  proof
    assume "\<forall>r \<in> set rs. dim0 (br_preds r) = batch_size r"
    then have "map (\<lambda>r. dim0 (br_preds r)) rs = map batch_size rs" by simp
    with d sizes show "dim0 outs = batch_sizes ?bs" by simp
  qed
  have lens: "length (acc_history ph st') = Suc (length (acc_history ph st))"
    "length (loss_history ph st') = Suc (length (loss_history ph st))"
    "length (outputs_history ph st') = Suc (length (outputs_history ph st))"
    "length (targets_history ph st') = Suc (length (targets_history ph st))"
    using lh ah oh th by simp_all
  have lasts: "last (targets_history ph st') = tgts" "last (outputs_history ph st') = outs"
    using oh th by simp_all
  from st0 rs dt d ct' co' show ?thesis
    unfolding lasts using lens by blast
qed

theorem history_entries_witness:
  "run_epoch (demo_collab (score_model 3 (const_score (6/10))) first_entry) (demo_args 1 3 False)
         (demo_loaders (demo_loader [([0, 1], [[1, 0, 1], [1, 1, 1]]), ([2], [[0, 1, 1]])] 3)
            (demo_loader [([3], [[1, 1, 1]]), ([4], [[0, 0, 0]])] 2)) 0 (init_state demo_world)
     = Inr (projr (run_epoch (demo_collab (score_model 3 (const_score (6/10))) first_entry) (demo_args 1 3 False)
         (demo_loaders (demo_loader [([0, 1], [[1, 0, 1], [1, 1, 1]]), ([2], [[0, 1, 1]])] 3)
            (demo_loader [([3], [[1, 1, 1]]), ([4], [[0, 0, 0]])] 2)) 0 (init_state demo_world)))
   \<and> map (\<lambda>r. (length (br_labels r), dim0 (br_preds r), batch_size r)) (projr (batch_results
         (demo_collab (score_model 3 (const_score (6/10))) first_entry) (demo_args 1 3 False) Train
         [([0, 1], [[1, 0, 1], [1, 1, 1]]), ([2], [[0, 1, 1]])] demo_world None))
       = [(2, 2, 2), (1, 1, 1)]
   \<and> batch_sizes [([0::nat, 1], [[1, 0, 1], [1, 1, 1::real]]), ([2], [[0, 1, 1]])] = 3
   \<and> map dim0 (train_outputs_history (projr (run_epoch (demo_collab (score_model 3 (const_score (6/10))) first_entry) (demo_args 1 3 False)
         (demo_loaders (demo_loader [([0, 1], [[1, 0, 1], [1, 1, 1]]), ([2], [[0, 1, 1]])] 3)
            (demo_loader [([3], [[1, 1, 1]]), ([4], [[0, 0, 0]])] 2)) 0 (init_state demo_world)))) = [3]
   \<and> map dim0 (train_targets_history (projr (run_epoch (demo_collab (score_model 3 (const_score (6/10))) first_entry) (demo_args 1 3 False)
         (demo_loaders (demo_loader [([0, 1], [[1, 0, 1], [1, 1, 1]]), ([2], [[0, 1, 1]])] 3)
            (demo_loader [([3], [[1, 1, 1]]), ([4], [[0, 0, 0]])] 2)) 0 (init_state demo_world)))) = [3]
   \<and> length (train_acc_history (projr (run_epoch (demo_collab (score_model 3 (const_score (6/10))) first_entry) (demo_args 1 3 False)
         (demo_loaders (demo_loader [([0, 1], [[1, 0, 1], [1, 1, 1]]), ([2], [[0, 1, 1]])] 3)
            (demo_loader [([3], [[1, 1, 1]]), ([4], [[0, 0, 0]])] 2)) 0 (init_state demo_world)))) = 1
   \<and> length (train_loss_history (projr (run_epoch (demo_collab (score_model 3 (const_score (6/10))) first_entry) (demo_args 1 3 False)
         (demo_loaders (demo_loader [([0, 1], [[1, 0, 1], [1, 1, 1]]), ([2], [[0, 1, 1]])] 3)
            (demo_loader [([3], [[1, 1, 1]]), ([4], [[0, 0, 0]])] 2)) 0 (init_state demo_world)))) = 1"
proof -
  let ?cb = "demo_collab (score_model 3 (const_score (6/10))) first_entry"
  let ?a = "demo_args 1 3 False"
  let ?bs = "[([0::nat, 1], [[1, 0, 1::real], [1, 1, 1]]), ([2], [[0, 1, 1]])]"
  let ?dl = "demo_loaders (demo_loader ?bs 3)
            (demo_loader [([3], [[1, 1, 1]]), ([4], [[0, 0, 0]])] 2)"
  let ?st = "init_state demo_world :: (nat, unit, nat) train_state"
  let ?run = "run_epoch ?cb ?a ?dl 0 ?st"
  let ?res = "batch_results ?cb ?a Train ?bs demo_world None"
  have "\<not> isl ?run" by code_simp
  then have h: "?run = Inr (projr ?run)" by (rule projr_collapse)
  have "\<not> isl ?res" by code_simp
  then have r: "?res = Inr (projr ?res)" by (rule projr_collapse)
  have start: "batches (?dl Train) 0 = ?bs" "set_mode ?cb Train (ts_model ?st) = demo_world"
    "prof ?st = None"
    by (simp_all add: demo_loader_def set_mode_def demo_collab_def init_state_def)
  have e: "train_acc_history ?st = []" "train_loss_history ?st = []"
    "train_outputs_history ?st = []" "train_targets_history ?st = []"
    by (simp_all add: init_state_def)
  have m: "map (\<lambda>r. (length (br_labels r), dim0 (br_preds r), batch_size r)) (projr ?res)
       = [(2, 2, 2), (1, 1, 1)]"
    by code_simp
  have "list_all (\<lambda>r. length (br_labels r) = batch_size r) (projr ?res)" by code_simp
  then have rl: "\<forall>r \<in> set (projr ?res). length (br_labels r) = batch_size r"
    by (simp add: list_all_iff)
  have "list_all (\<lambda>r. dim0 (br_preds r) = batch_size r) (projr ?res)" by code_simp
  then have rp: "\<forall>r \<in> set (projr ?res). dim0 (br_preds r) = batch_size r"
    by (simp add: list_all_iff)
  have n: "batch_sizes ?bs = 3" by (simp add: batch_sizes_def)
  from history_entries [OF h, of Train] obtain rs where
    len: "length (train_acc_history (projr ?run)) = Suc (length (train_acc_history ?st))"
      "length (train_loss_history (projr ?run)) = Suc (length (train_loss_history ?st))"
      "length (train_outputs_history (projr ?run)) = Suc (length (train_outputs_history ?st))"
      "length (train_targets_history (projr ?run)) = Suc (length (train_targets_history ?st))"
    and rs: "batch_results ?cb ?a Train (batches (?dl Train) 0)
          (set_mode ?cb Train (ts_model ?st)) (prof ?st) = Inr rs"
    and tl: "(\<forall>r \<in> set rs. length (br_labels r) = batch_size r) \<longrightarrow>
          dim0 (last (train_targets_history (projr ?run))) = batch_sizes (batches (?dl Train) 0)"
    and ol: "(\<forall>r \<in> set rs. dim0 (br_preds r) = batch_size r) \<longrightarrow>
          dim0 (last (train_outputs_history (projr ?run))) = batch_sizes (batches (?dl Train) 0)"
    by auto
  from rs r start have "rs = projr ?res" by simp
  with tl ol rl rp start n
  have d: "dim0 (last (train_targets_history (projr ?run))) = 3"
    "dim0 (last (train_outputs_history (projr ?run))) = 3"
    by simp_all
  from len e have l1: "length (train_acc_history (projr ?run)) = 1"
    "length (train_loss_history (projr ?run)) = 1"
    "length (train_outputs_history (projr ?run)) = 1"
    "length (train_targets_history (projr ?run)) = 1"
    by simp_all
  from l1 d have o: "map dim0 (train_outputs_history (projr ?run)) = [3]"
    by (cases "train_outputs_history (projr ?run)") simp_all
  from l1 d have t: "map dim0 (train_targets_history (projr ?run)) = [3]"
    by (cases "train_targets_history (projr ?run)") simp_all
  from h m n o t l1 show ?thesis by blast
qed

text \<open>
  C7 as stated fails for both arrays. A model may answer a batch of two inputs with one
  row, which the comparison with the labels accepts by broadcasting: the prediction array
  of the phase then has one row, the batch size being 2. And a loader may pair one input
  with two rows of labels, against which the single row of predictions is broadcast: the
  label array of the phase has two rows, the batch size being 1.
\<close>

theorem pooled_outputs_shorter:
  "run_epoch (demo_collab pooled_model first_entry) (demo_args 1 1 False)
         (demo_loaders (demo_loader [([0, 1], [[1], [1]])] 2) (demo_loader [([0, 1], [[1], [1]])] 2))
         0 (init_state demo_world)
     = Inr (projr (run_epoch (demo_collab pooled_model first_entry) (demo_args 1 1 False)
         (demo_loaders (demo_loader [([0, 1], [[1], [1]])] 2) (demo_loader [([0, 1], [[1], [1]])] 2))
         0 (init_state demo_world)))
   \<and> val_outputs_history (projr (run_epoch (demo_collab pooled_model first_entry) (demo_args 1 1 False)
         (demo_loaders (demo_loader [([0, 1], [[1], [1]])] 2) (demo_loader [([0, 1], [[1], [1]])] 2))
         0 (init_state demo_world))) = [Mat [[1]]]
   \<and> batch_sizes (batches (demo_loaders (demo_loader [([0, 1], [[1], [1]])] 2)
         (demo_loader [([0, 1], [[1], [1]])] 2) Val) 0) = 2
   \<and> dim0 (Mat [[1]]) \<noteq> 2
   \<and> run_epoch (demo_collab pooled_model first_entry) (demo_args 1 1 False)
         (demo_loaders (demo_loader [([0], [[1], [1]])] 1) (demo_loader [([0], [[1], [1]])] 1))
         0 (init_state demo_world)
     = Inr (projr (run_epoch (demo_collab pooled_model first_entry) (demo_args 1 1 False)
         (demo_loaders (demo_loader [([0], [[1], [1]])] 1) (demo_loader [([0], [[1], [1]])] 1))
         0 (init_state demo_world)))
   \<and> val_targets_history (projr (run_epoch (demo_collab pooled_model first_entry) (demo_args 1 1 False)
         (demo_loaders (demo_loader [([0], [[1], [1]])] 1) (demo_loader [([0], [[1], [1]])] 1))
         0 (init_state demo_world))) = [Mat [[1], [1]]]
   \<and> batch_sizes (batches (demo_loaders (demo_loader [([0], [[1], [1]])] 1)
         (demo_loader [([0], [[1], [1]])] 1) Val) 0) = 1
   \<and> dim0 (Mat [[1], [1]]) \<noteq> 1"
proof -
  let ?runa = "run_epoch (demo_collab pooled_model first_entry) (demo_args 1 1 False)
         (demo_loaders (demo_loader [([0, 1], [[1], [1]])] 2) (demo_loader [([0, 1], [[1], [1]])] 2))
         0 (init_state demo_world)"
  let ?runb = "run_epoch (demo_collab pooled_model first_entry) (demo_args 1 1 False)
         (demo_loaders (demo_loader [([0], [[1], [1]])] 1) (demo_loader [([0], [[1], [1]])] 1))
         0 (init_state demo_world)"
  have "\<not> isl ?runa" by code_simp
  then have ha: "?runa = Inr (projr ?runa)" by (rule projr_collapse)
  have "\<not> isl ?runb" by code_simp
  then have hb: "?runb = Inr (projr ?runb)" by (rule projr_collapse)
  have o: "val_outputs_history (projr ?runa) = [Mat [[1]]]" by code_simp
  have t: "val_targets_history (projr ?runb) = [Mat [[1], [1]]]" by code_simp
  have n: "batch_sizes (batches (demo_loaders (demo_loader [([0, 1], [[1], [1]])] 2)
         (demo_loader [([0, 1], [[1], [1]])] 2) Val) 0) = 2"
    "batch_sizes (batches (demo_loaders (demo_loader [([0], [[1], [1]])] 1)
         (demo_loader [([0], [[1], [1]])] 1) Val) 0) = 1"
    by (simp_all add: demo_loader_def batch_sizes_def)
  have d: "dim0 (Mat [[1]]) \<noteq> 2" "dim0 (Mat [[1], [1]]) \<noteq> 1" by simp_all
  from ha o n(1) d(1) hb t n(2) d(2) show ?thesis by (intro conjI)
qed

subsection \<open>The best checkpoint\<close>

lemma run_phase_best_train:
  assumes "run_phase cb a dl epoch Train st = Inr st'"
  shows "best_loss st' = best_loss st \<and> best_acc st' = best_acc st
     \<and> best_model_wts st' = best_model_wts st"
proof -
  from assms obtain acc where "end_phase a dl Train st acc = Inr st'"
    by (auto simp: run_phase_def split: sum.splits)
  from end_phase_best_train [OF this] show ?thesis .
qed

lemma run_phase_best_val:
  assumes "run_phase cb a dl epoch Val st = Inr st'"
  shows "\<exists>l x. val_loss_history st' = val_loss_history st @ [l]
     \<and> val_acc_history st' = val_acc_history st @ [x]
     \<and> best_loss st' = min (best_loss st) l
     \<and> (l < best_loss st \<longrightarrow> best_model_wts st' = weights (ts_model st') \<and> best_acc st' = x)
     \<and> (\<not> l < best_loss st \<longrightarrow> best_model_wts st' = best_model_wts st \<and> best_acc st' = best_acc st)"
proof -
  from assms obtain acc where "end_phase a dl Val st acc = Inr st'"
    by (auto simp: run_phase_def split: sum.splits)
  from end_phase_best_val [OF this] show ?thesis .
qed

lemma run_phases_best:
  assumes "run_phases cb a dl epoch [Train, Val] st = Inr st'"
  shows "\<exists>l x. val_loss_history st' = val_loss_history st @ [l]
     \<and> val_acc_history st' = val_acc_history st @ [x]
     \<and> best_loss st' = min (best_loss st) l
     \<and> (l < best_loss st \<longrightarrow> best_model_wts st' = weights (ts_model st') \<and> best_acc st' = x)
     \<and> (\<not> l < best_loss st \<longrightarrow> best_model_wts st' = best_model_wts st \<and> best_acc st' = best_acc st)"
proof -
  from assms obtain st1 where
    tr: "run_phase cb a dl epoch Train st = Inr st1"
    and va: "run_phase cb a dl epoch Val st1 = Inr st'"
    by (auto split: sum.splits)
  from run_phase_frame [OF tr, of Val]
  have "val_loss_history st1 = val_loss_history st" "val_acc_history st1 = val_acc_history st"
    by simp_all
  with run_phase_best_train [OF tr] run_phase_best_val [OF va] show ?thesis
    by simp
qed

lemma run_epoch_best:
  assumes "run_epoch cb a dl epoch st = Inr st'"
  shows "\<exists>st_v. run_phases cb a dl epoch [Train, Val] st = Inr st_v
     \<and> val_loss_history st' = val_loss_history st_v \<and> val_acc_history st' = val_acc_history st_v
     \<and> best_loss st' = best_loss st_v \<and> best_acc st' = best_acc st_v
     \<and> best_model_wts st' = best_model_wts st_v"
  using assms
  by (auto simp: run_epoch_def simp del: run_phases.simps split: sum.splits)

lemma run_epochs_append:
  "run_epochs cb a dl (es @ fs) st =
     (case run_epochs cb a dl es st of Inl e \<Rightarrow> Inl e | Inr st1 \<Rightarrow> run_epochs cb a dl fs st1)"
  by (induction es arbitrary: st) (simp_all split: sum.splits)

lemma run_epochs_Suc:
  assumes "run_epochs cb a dl [0..<Suc n] st0 = Inr st'"
  shows "\<exists>st. run_epochs cb a dl [0..<n] st0 = Inr st \<and> run_epoch cb a dl n st = Inr st'"
  using assms
  by (auto simp: run_epochs_append split: sum.splits)

lemma run_epoch_step:
  assumes "run_epoch cb a dl epoch st = Inr st'"
  shows "\<exists>st_v l x. run_phases cb a dl epoch [Train, Val] st = Inr st_v
     \<and> val_loss_history st' = val_loss_history st @ [l]
     \<and> val_acc_history st' = val_acc_history st @ [x]
     \<and> best_loss st' = min (best_loss st) l
     \<and> (l < best_loss st \<longrightarrow> best_model_wts st' = weights (ts_model st_v) \<and> best_acc st' = x)
     \<and> (\<not> l < best_loss st \<longrightarrow> best_model_wts st' = best_model_wts st \<and> best_acc st' = best_acc st)"
proof -
  from run_epoch_best [OF assms] obtain st_v where
    v: "run_phases cb a dl epoch [Train, Val] st = Inr st_v"
    and eq: "val_loss_history st' = val_loss_history st_v"
      "val_acc_history st' = val_acc_history st_v"
      "best_loss st' = best_loss st_v" "best_acc st' = best_acc st_v"
      "best_model_wts st' = best_model_wts st_v"
    by blast
  from run_phases_best [OF v] eq v show ?thesis
    by auto
qed

lemma init_state_fields:
  "val_loss_history (init_state s) = []" "val_acc_history (init_state s) = []"
  "best_loss (init_state s) = 10000" "best_acc (init_state s) = Fin 0"
  "best_model_wts (init_state s) = weights s"
  by (simp_all add: init_state_def)

lemma run_epochs_inv:
  "run_epochs cb a dl [0..<n] (init_state s) = Inr st \<Longrightarrow>
   length (val_loss_history st) = n \<and> length (val_acc_history st) = n
   \<and> (best_loss st = 10000 \<or> (\<exists>j<n. best_loss st = val_loss_history st ! j))"
proof (induction n arbitrary: st)
  case 0
  then show ?case by (auto simp: init_state_fields)
next
  case (Suc n)
  from run_epochs_Suc [OF Suc.prems] obtain st0 where
    pre: "run_epochs cb a dl [0..<n] (init_state s) = Inr st0"
    and ep: "run_epoch cb a dl n st0 = Inr st"
    by blast
  from Suc.IH [OF pre] have len: "length (val_loss_history st0) = n"
    "length (val_acc_history st0) = n"
    and b0: "best_loss st0 = 10000 \<or> (\<exists>j<n. best_loss st0 = val_loss_history st0 ! j)"
    by simp_all
  from run_epoch_step [OF ep] obtain l x where
    h: "val_loss_history st = val_loss_history st0 @ [l]"
       "val_acc_history st = val_acc_history st0 @ [x]"
    and b: "best_loss st = min (best_loss st0) l"
    by blast
  have "best_loss st = 10000 \<or> (\<exists>j<Suc n. best_loss st = val_loss_history st ! j)"
  proof (cases "l < best_loss st0")
    case True
    with b have "best_loss st = val_loss_history st ! n"
      using h(1) len(1) by (simp add: nth_append)
    then show ?thesis by blast
  next
    case False
    with b have same: "best_loss st = best_loss st0" by simp
    from b0 show ?thesis
    proof
      assume "best_loss st0 = 10000"
      with same show ?thesis by simp
    next
      assume "\<exists>j<n. best_loss st0 = val_loss_history st0 ! j"
      then obtain j where j: "j < n" "best_loss st0 = val_loss_history st0 ! j"
        by blast
      with same h(1) len(1) have "best_loss st = val_loss_history st ! j"
        by (simp add: nth_append)
      with j(1) show ?thesis by (auto intro: less_SucI)
    qed
  qed
  with h len show ?case by simp
qed

lemma run_epochs_sentinel:
  "run_epochs cb a dl [0..<n] (init_state s) = Inr st \<Longrightarrow>
   \<forall>l \<in> set (val_loss_history st). 10000 \<le> l \<Longrightarrow>
   best_loss st = 10000 \<and> best_model_wts st = weights s \<and> best_acc st = Fin 0"
proof (induction n arbitrary: st)
  case 0
  then show ?case by (auto simp: init_state_fields)
next
  case (Suc n)
  from run_epochs_Suc [OF Suc.prems(1)] obtain st0 where
    pre: "run_epochs cb a dl [0..<n] (init_state s) = Inr st0"
    and ep: "run_epoch cb a dl n st0 = Inr st"
    by blast
  from run_epoch_step [OF ep] obtain l where
    h: "val_loss_history st = val_loss_history st0 @ [l]"
    and b: "best_loss st = min (best_loss st0) l"
    and keep: "\<not> l < best_loss st0 \<longrightarrow>
                 best_model_wts st = best_model_wts st0 \<and> best_acc st = best_acc st0"
    by blast
  from Suc.prems(2) h have big: "\<forall>l \<in> set (val_loss_history st0). 10000 \<le> l" and l: "10000 \<le> l"
    by simp_all
  from Suc.IH [OF pre big] have i: "best_loss st0 = 10000" "best_model_wts st0 = weights s"
    "best_acc st0 = Fin 0"
    by simp_all
  from i(1) l have "\<not> l < best_loss st0" by simp
  with keep b i show ?case by simp
qed

lemma run_epochs_prefix:
  "run_epochs cb a dl [0..<n] (init_state s) = Inr st \<Longrightarrow> m \<le> n \<Longrightarrow>
   \<exists>st_m. run_epochs cb a dl [0..<m] (init_state s) = Inr st_m
     \<and> val_loss_history st_m = take m (val_loss_history st)"
proof (induction n arbitrary: st)
  case 0
  then show ?case by (auto simp: init_state_fields)
next
  case (Suc n)
  from run_epochs_Suc [OF Suc.prems(1)] obtain st0 where
    pre: "run_epochs cb a dl [0..<n] (init_state s) = Inr st0"
    and ep: "run_epoch cb a dl n st0 = Inr st"
    by blast
  from run_epochs_inv [OF Suc.prems(1)] have len: "length (val_loss_history st) = Suc n"
    by simp
  from run_epochs_inv [OF pre] have len0: "length (val_loss_history st0) = n"
    by simp
  from run_epoch_step [OF ep] obtain l where
    h: "val_loss_history st = val_loss_history st0 @ [l]"
    by blast
  show ?case
  proof (cases "m = Suc n")
    case True
    with Suc.prems(1) len show ?thesis by simp
  next
    case False
    with Suc.prems(2) have mn: "m \<le> n" by simp
    from Suc.IH [OF pre mn] obtain st_m where
      "run_epochs cb a dl [0..<m] (init_state s) = Inr st_m"
      "val_loss_history st_m = take m (val_loss_history st0)"
      by blast
    with h mn len0 show ?thesis by simp
  qed
qed

lemma run_epochs_first_min:
  "run_epochs cb a dl [0..<n] (init_state s) = Inr st \<Longrightarrow> k < n \<Longrightarrow>
   val_loss_history st ! k < 10000 \<Longrightarrow>
   \<forall>j<n. val_loss_history st ! k \<le> val_loss_history st ! j \<Longrightarrow>
   \<forall>j<k. val_loss_history st ! k < val_loss_history st ! j \<Longrightarrow>
   best_loss st = val_loss_history st ! k \<and> best_acc st = val_acc_history st ! k
   \<and> (\<exists>st_k st_v. run_epochs cb a dl [0..<k] (init_state s) = Inr st_k
          \<and> run_phases cb a dl k [Train, Val] st_k = Inr st_v
          \<and> best_model_wts st = weights (ts_model st_v))"
proof (induction n arbitrary: st)
  case 0
  then show ?case by simp
next
  case (Suc n)
  from run_epochs_Suc [OF Suc.prems(1)] obtain st0 where
    pre: "run_epochs cb a dl [0..<n] (init_state s) = Inr st0"
    and ep: "run_epoch cb a dl n st0 = Inr st"
    by blast
  from run_epochs_inv [OF pre] have len0: "length (val_loss_history st0) = n"
    "length (val_acc_history st0) = n"
    and b0: "best_loss st0 = 10000 \<or> (\<exists>j<n. best_loss st0 = val_loss_history st0 ! j)"
    by simp_all
  from run_epoch_step [OF ep] obtain st_v l x where
    v: "run_phases cb a dl n [Train, Val] st0 = Inr st_v"
    and h: "val_loss_history st = val_loss_history st0 @ [l]"
       "val_acc_history st = val_acc_history st0 @ [x]"
    and b: "best_loss st = min (best_loss st0) l"
    and upd: "l < best_loss st0 \<longrightarrow> best_model_wts st = weights (ts_model st_v) \<and> best_acc st = x"
    and keep: "\<not> l < best_loss st0 \<longrightarrow>
                 best_model_wts st = best_model_wts st0 \<and> best_acc st = best_acc st0"
    by blast
  let ?L = "val_loss_history st" and ?M = "val_loss_history st0"
  have old: "\<And>j. j < n \<Longrightarrow> ?L ! j = ?M ! j"
    using h(1) len0(1) by (simp add: nth_append)
  have new: "?L ! n = l"
    using h(1) len0(1) by (simp add: nth_append)
  show ?case
  proof (cases "k = n")
    case True
    have "l < best_loss st0"
      using b0
    proof
      assume "best_loss st0 = 10000"
      with Suc.prems(3) True new show ?thesis by simp
    next
      assume "\<exists>j<n. best_loss st0 = ?M ! j"
      then obtain j where j: "j < n" "best_loss st0 = ?M ! j" by blast
      from Suc.prems(5) True j(1) have "?L ! n < ?L ! j" by simp
      with new old [OF j(1)] j(2) show ?thesis by simp
    qed
    with b upd have "best_loss st = l" "best_model_wts st = weights (ts_model st_v)"
      "best_acc st = x"
      by simp_all
    moreover have "val_acc_history st ! n = x"
      using h(2) len0(2) by (simp add: nth_append)
    ultimately show ?thesis
      using True new pre v by auto
  next
    case False
    with Suc.prems(2) have kn: "k < n" by simp
    have k0: "?M ! k < 10000"
      using Suc.prems(3) old [OF kn] by simp
    have min0: "\<forall>j<n. ?M ! k \<le> ?M ! j"
    proof (intro allI impI)
      fix j assume j: "j < n"
      with Suc.prems(4) have "?L ! k \<le> ?L ! j" by simp
      with old [OF kn] old [OF j] show "?M ! k \<le> ?M ! j" by simp
    qed
    have first0: "\<forall>j<k. ?M ! k < ?M ! j"
    proof (intro allI impI)
      fix j assume j: "j < k"
      with Suc.prems(5) have "?L ! k < ?L ! j" by simp
      moreover from j kn have "j < n" by simp
      ultimately show "?M ! k < ?M ! j"
        using old [OF kn] old by simp
    qed
    from Suc.IH [OF pre kn k0 min0 first0] obtain st_k st_v0 where
      i: "best_loss st0 = ?M ! k" "best_acc st0 = val_acc_history st0 ! k"
      "run_epochs cb a dl [0..<k] (init_state s) = Inr st_k"
      "run_phases cb a dl k [Train, Val] st_k = Inr st_v0"
      "best_model_wts st0 = weights (ts_model st_v0)"
      by blast
    from Suc.prems(4) have "?L ! k \<le> ?L ! n" by simp
    with new old [OF kn] i(1) have no: "\<not> l < best_loss st0" by simp
    with keep b have "best_loss st = best_loss st0" "best_model_wts st = best_model_wts st0"
      "best_acc st = best_acc st0"
      by simp_all
    moreover have "val_acc_history st ! k = val_acc_history st0 ! k"
      using h(2) len0(2) kn by (simp add: nth_append)
    ultimately show ?thesis
      using i old [OF kn] by auto
  qed
qed

lemma train_model_Inr:
  assumes "train_model cb a dl s = Inr r"
  shows "\<exists>st. run_epochs cb a dl [0..<nat (num_epochs a)] (init_state s) = Inr st
     \<and> ret_model r = (ts_model st)\<lparr>weights := best_model_wts st\<rparr>
     \<and> h_loss (ret_val r) = val_loss_history st \<and> h_acc (ret_val r) = val_acc_history st
     \<and> printed_best_loss r = best_loss st \<and> printed_best_acc r = best_acc st"
  using assms
  by (auto simp: train_model_def split: sum.splits option.splits)

text \<open>
  C1, as the code has it. In every run that returns, for every epoch \<open>N\<close>: the value of
  \<open>best_loss\<close> after the validation phase of epoch \<open>N\<close> is the minimum of its value
  before the epoch and the validation loss of the epoch, and the checkpoint is replaced by
  the weights of that moment exactly when the loss is strictly smaller (an equal loss
  leaves it alone). The returned model carries the weights copied at the first epoch that
  reached the minimum validation loss of the run, and that minimum is the best loss
  reported, provided the minimum is below 10000, the initial value of \<open>best_loss\<close>.
\<close>

theorem best_checkpoint:
  assumes "train_model cb a dataloaders s = Inr r"
  shows "(\<forall>N < nat (num_epochs a). \<exists>st st_v.
            run_epochs cb a dataloaders [0..<N] (init_state s) = Inr st
          \<and> run_phases cb a dataloaders N [Train, Val] st = Inr st_v
          \<and> val_loss_history st_v = val_loss_history st @ [h_loss (ret_val r) ! N]
          \<and> best_loss st_v = min (best_loss st) (h_loss (ret_val r) ! N)
          \<and> (h_loss (ret_val r) ! N < best_loss st \<longrightarrow>
                best_model_wts st_v = weights (ts_model st_v))
          \<and> (\<not> h_loss (ret_val r) ! N < best_loss st \<longrightarrow>
                best_model_wts st_v = best_model_wts st))
       \<and> (\<forall>k < nat (num_epochs a).
            h_loss (ret_val r) ! k < 10000 \<longrightarrow>
            (\<forall>j < nat (num_epochs a). h_loss (ret_val r) ! k \<le> h_loss (ret_val r) ! j) \<longrightarrow>
            (\<forall>j < k. h_loss (ret_val r) ! k < h_loss (ret_val r) ! j) \<longrightarrow>
            printed_best_loss r = h_loss (ret_val r) ! k
            \<and> (\<exists>st st_v. run_epochs cb a dataloaders [0..<k] (init_state s) = Inr st
                 \<and> run_phases cb a dataloaders k [Train, Val] st = Inr st_v
                 \<and> weights (ret_model r) = weights (ts_model st_v)))"
proof -
  let ?n = "nat (num_epochs a)"
  from train_model_Inr [OF assms] obtain stn where
    run: "run_epochs cb a dataloaders [0..<?n] (init_state s) = Inr stn"
    and m: "ret_model r = (ts_model stn)\<lparr>weights := best_model_wts stn\<rparr>"
    and L: "h_loss (ret_val r) = val_loss_history stn"
    and p: "printed_best_loss r = best_loss stn"
    by blast
  from run_epochs_inv [OF run] have len: "length (val_loss_history stn) = ?n"
    by simp
  have A: "\<exists>st st_v.
            run_epochs cb a dataloaders [0..<N] (init_state s) = Inr st
          \<and> run_phases cb a dataloaders N [Train, Val] st = Inr st_v
          \<and> val_loss_history st_v = val_loss_history st @ [h_loss (ret_val r) ! N]
          \<and> best_loss st_v = min (best_loss st) (h_loss (ret_val r) ! N)
          \<and> (h_loss (ret_val r) ! N < best_loss st \<longrightarrow>
                best_model_wts st_v = weights (ts_model st_v))
          \<and> (\<not> h_loss (ret_val r) ! N < best_loss st \<longrightarrow>
                best_model_wts st_v = best_model_wts st)"
    if N: "N < ?n" for N
  proof -
    from N have "Suc N \<le> ?n" by simp
    from run_epochs_prefix [OF run this] obtain st' where
      st': "run_epochs cb a dataloaders [0..<Suc N] (init_state s) = Inr st'"
      and tk: "val_loss_history st' = take (Suc N) (val_loss_history stn)"
      by blast
    from run_epochs_Suc [OF st'] obtain st where
      st: "run_epochs cb a dataloaders [0..<N] (init_state s) = Inr st"
      and ep: "run_epoch cb a dataloaders N st = Inr st'"
      by blast
    from run_epochs_inv [OF st] have lenN: "length (val_loss_history st) = N"
      by simp
    from run_epoch_best [OF ep] obtain st_v where
      v: "run_phases cb a dataloaders N [Train, Val] st = Inr st_v"
      and same: "val_loss_history st' = val_loss_history st_v"
      by blast
    from run_phases_best [OF v] obtain l where
      h: "val_loss_history st_v = val_loss_history st @ [l]"
      and b: "best_loss st_v = min (best_loss st) l"
      and u: "l < best_loss st \<longrightarrow> best_model_wts st_v = weights (ts_model st_v)"
      and k: "\<not> l < best_loss st \<longrightarrow> best_model_wts st_v = best_model_wts st"
      by blast
    have "take (Suc N) (val_loss_history stn) = val_loss_history st @ [l]"
      using tk same h by simp
    then have "take (Suc N) (val_loss_history stn) ! N = (val_loss_history st @ [l]) ! N"
      by (rule arg_cong)
    then have "val_loss_history stn ! N = l"
      using lenN by (simp add: nth_append)
    then have "h_loss (ret_val r) ! N = l"
      using L by simp
    with st v h b u k show ?thesis by blast
  qed
  have B: "printed_best_loss r = h_loss (ret_val r) ! k
            \<and> (\<exists>st st_v. run_epochs cb a dataloaders [0..<k] (init_state s) = Inr st
                 \<and> run_phases cb a dataloaders k [Train, Val] st = Inr st_v
                 \<and> weights (ret_model r) = weights (ts_model st_v))"
    if "k < ?n" "h_loss (ret_val r) ! k < 10000"
      "\<forall>j < ?n. h_loss (ret_val r) ! k \<le> h_loss (ret_val r) ! j"
      "\<forall>j < k. h_loss (ret_val r) ! k < h_loss (ret_val r) ! j" for k
  proof -
    from that L have c: "val_loss_history stn ! k < 10000"
      "\<forall>j < ?n. val_loss_history stn ! k \<le> val_loss_history stn ! j"
      "\<forall>j < k. val_loss_history stn ! k < val_loss_history stn ! j"
      by simp_all
    from run_epochs_first_min [OF run that(1) c] m p L show ?thesis
      by auto
  qed
  from A B show ?thesis by blast
qed

theorem best_checkpoint_witness:
  "train_model (demo_collab (score_model 1 step_score) first_entry) (demo_args 3 1 False)
       (demo_loaders (demo_loader [([0], [[1]])] 1) (demo_loader [([0], [[1]])] 1)) demo_world
     = Inr (projr (train_model (demo_collab (score_model 1 step_score) first_entry)
         (demo_args 3 1 False)
         (demo_loaders (demo_loader [([0], [[1]])] 1) (demo_loader [([0], [[1]])] 1)) demo_world))
   \<and> h_loss (ret_val (projr (train_model (demo_collab (score_model 1 step_score) first_entry)
         (demo_args 3 1 False)
         (demo_loaders (demo_loader [([0], [[1]])] 1) (demo_loader [([0], [[1]])] 1)) demo_world)))
       = [9/10, 7/10, 8/10]
   \<and> printed_best_loss (projr (train_model (demo_collab (score_model 1 step_score) first_entry)
         (demo_args 3 1 False)
         (demo_loaders (demo_loader [([0], [[1]])] 1) (demo_loader [([0], [[1]])] 1)) demo_world))
       = 7/10
   \<and> weights (ret_model (projr (train_model (demo_collab (score_model 1 step_score) first_entry)
         (demo_args 3 1 False)
         (demo_loaders (demo_loader [([0], [[1]])] 1) (demo_loader [([0], [[1]])] 1)) demo_world)))
       = 2
   \<and> weights (ts_model (projr (run_phases (demo_collab (score_model 1 step_score) first_entry)
         (demo_args 3 1 False)
         (demo_loaders (demo_loader [([0], [[1]])] 1) (demo_loader [([0], [[1]])] 1)) 1 [Train, Val]
         (projr (run_epochs (demo_collab (score_model 1 step_score) first_entry)
            (demo_args 3 1 False)
            (demo_loaders (demo_loader [([0], [[1]])] 1) (demo_loader [([0], [[1]])] 1)) [0]
            (init_state demo_world))))))
       = 2"
proof -
  let ?cb = "demo_collab (score_model 1 step_score) first_entry"
  let ?a = "demo_args 3 1 False"
  let ?dl = "demo_loaders (demo_loader [([0], [[1]])] 1) (demo_loader [([0], [[1]])] 1)"
  let ?run = "train_model ?cb ?a ?dl demo_world"
  have "\<not> isl ?run" by code_simp
  then have h: "?run = Inr (projr ?run)" by (rule projr_collapse)
  have l: "h_loss (ret_val (projr ?run)) = [9/10, 7/10, 8/10]" by code_simp
  have n: "nat (num_epochs ?a) = 3" by (simp add: demo_args_def)
  have w: "weights (ret_model (projr ?run)) = 2" by code_simp
  have v: "weights (ts_model (projr (run_phases ?cb ?a ?dl 1 [Train, Val]
         (projr (run_epochs ?cb ?a ?dl [0] (init_state demo_world)))))) = 2"
    by code_simp
  from best_checkpoint [OF h] have
    "\<forall>k < 3. h_loss (ret_val (projr ?run)) ! k < 10000 \<longrightarrow>
       (\<forall>j < 3. h_loss (ret_val (projr ?run)) ! k \<le> h_loss (ret_val (projr ?run)) ! j) \<longrightarrow>
       (\<forall>j < k. h_loss (ret_val (projr ?run)) ! k < h_loss (ret_val (projr ?run)) ! j) \<longrightarrow>
       printed_best_loss (projr ?run) = h_loss (ret_val (projr ?run)) ! k"
    unfolding n by blast
  then have "h_loss (ret_val (projr ?run)) ! 1 < 10000 \<longrightarrow>
       (\<forall>j < 3. h_loss (ret_val (projr ?run)) ! 1 \<le> h_loss (ret_val (projr ?run)) ! j) \<longrightarrow>
       (\<forall>j < 1. h_loss (ret_val (projr ?run)) ! 1 < h_loss (ret_val (projr ?run)) ! j) \<longrightarrow>
       printed_best_loss (projr ?run) = h_loss (ret_val (projr ?run)) ! 1"
    by simp
  then have "printed_best_loss (projr ?run) = 7/10"
    unfolding l by (simp add: numeral_3_eq_3 less_Suc_eq all_conj_distrib)
  with h l w v show ?thesis by simp
qed

text \<open>
  C1 as stated fails where no validation loss is below 10000. One epoch with validation
  loss 20000: the first epoch reaches the minimum of the run with the weights after one
  optimizer step, and the returned model carries the initial weights.
\<close>

theorem sentinel_hides_minimum:
  "train_model (demo_collab (score_model 1 (const_score 20000)) first_entry) (demo_args 1 1 False)
       (demo_loaders (demo_loader [([0], [[1]])] 1) (demo_loader [([0], [[1]])] 1)) demo_world
     = Inr (projr (train_model (demo_collab (score_model 1 (const_score 20000)) first_entry)
         (demo_args 1 1 False)
         (demo_loaders (demo_loader [([0], [[1]])] 1) (demo_loader [([0], [[1]])] 1)) demo_world))
   \<and> h_loss (ret_val (projr (train_model (demo_collab (score_model 1 (const_score 20000)) first_entry)
         (demo_args 1 1 False)
         (demo_loaders (demo_loader [([0], [[1]])] 1) (demo_loader [([0], [[1]])] 1)) demo_world)))
       = [20000]
   \<and> weights (ts_model (projr (run_phases (demo_collab (score_model 1 (const_score 20000)) first_entry)
         (demo_args 1 1 False)
         (demo_loaders (demo_loader [([0], [[1]])] 1) (demo_loader [([0], [[1]])] 1)) 0 [Train, Val]
         (init_state demo_world))))
       = 1
   \<and> weights (ret_model (projr (train_model (demo_collab (score_model 1 (const_score 20000)) first_entry)
         (demo_args 1 1 False)
         (demo_loaders (demo_loader [([0], [[1]])] 1) (demo_loader [([0], [[1]])] 1)) demo_world)))
       = 0"
proof -
  let ?cb = "demo_collab (score_model 1 (const_score 20000)) first_entry"
  let ?a = "demo_args 1 1 False"
  let ?dl = "demo_loaders (demo_loader [([0], [[1]])] 1) (demo_loader [([0], [[1]])] 1)"
  let ?run = "train_model ?cb ?a ?dl demo_world"
  have "\<not> isl ?run" by code_simp
  then have h: "?run = Inr (projr ?run)" by (rule projr_collapse)
  have l: "h_loss (ret_val (projr ?run)) = [20000]" by code_simp
  have v: "weights (ts_model (projr (run_phases ?cb ?a ?dl 0 [Train, Val]
              (init_state demo_world)))) = 1"
    by code_simp
  have w: "weights (ret_model (projr ?run)) = 0" by code_simp
  from h l v w show ?thesis by simp
qed

text \<open>
  C9. \<open>best_loss\<close> starts at 10000, not at infinity: in a run that returns and in which
  every validation loss is at least 10000 the checkpoint is never replaced, so the model
  comes back with its initial weights loaded, and the best loss and accuracy reported are
  10000 and 0.
\<close>

theorem sentinel_keeps_initial_weights:
  assumes "train_model cb a dataloaders s = Inr r"
    and "\<forall>l \<in> set (h_loss (ret_val r)). 10000 \<le> l"
  shows "weights (ret_model r) = weights s \<and> printed_best_loss r = 10000
     \<and> printed_best_acc r = Fin 0
     \<and> (\<exists>st. run_epochs cb a dataloaders [0..<nat (num_epochs a)] (init_state s) = Inr st
           \<and> ret_model r = (ts_model st)\<lparr>weights := weights s\<rparr>)"
proof -
  from train_model_Inr [OF assms(1)] obtain st where
    run: "run_epochs cb a dataloaders [0..<nat (num_epochs a)] (init_state s) = Inr st"
    and m: "ret_model r = (ts_model st)\<lparr>weights := best_model_wts st\<rparr>"
    and L: "h_loss (ret_val r) = val_loss_history st"
    and p: "printed_best_loss r = best_loss st" "printed_best_acc r = best_acc st"
    by blast
  from assms(2) L have "\<forall>l \<in> set (val_loss_history st). 10000 \<le> l"
    by simp
  from run_epochs_sentinel [OF run this] run m p show ?thesis
    by auto
qed

theorem sentinel_keeps_initial_weights_witness:
  "train_model (demo_collab (score_model 1 (const_score 20000)) first_entry) (demo_args 2 1 False)
       (demo_loaders (demo_loader [([0], [[1]])] 1) (demo_loader [([0], [[1]])] 1)) demo_world
     = Inr (projr (train_model (demo_collab (score_model 1 (const_score 20000)) first_entry)
         (demo_args 2 1 False)
         (demo_loaders (demo_loader [([0], [[1]])] 1) (demo_loader [([0], [[1]])] 1)) demo_world))
   \<and> h_loss (ret_val (projr (train_model (demo_collab (score_model 1 (const_score 20000)) first_entry)
         (demo_args 2 1 False)
         (demo_loaders (demo_loader [([0], [[1]])] 1) (demo_loader [([0], [[1]])] 1)) demo_world)))
       = [20000, 20000]
   \<and> weights (ts_model (projr (run_epochs (demo_collab (score_model 1 (const_score 20000)) first_entry)
         (demo_args 2 1 False)
         (demo_loaders (demo_loader [([0], [[1]])] 1) (demo_loader [([0], [[1]])] 1)) [0, 1]
         (init_state demo_world))))
       = 2
   \<and> weights (ret_model (projr (train_model (demo_collab (score_model 1 (const_score 20000)) first_entry)
         (demo_args 2 1 False)
         (demo_loaders (demo_loader [([0], [[1]])] 1) (demo_loader [([0], [[1]])] 1)) demo_world)))
       = 0
   \<and> printed_best_loss (projr (train_model (demo_collab (score_model 1 (const_score 20000)) first_entry)
         (demo_args 2 1 False)
         (demo_loaders (demo_loader [([0], [[1]])] 1) (demo_loader [([0], [[1]])] 1)) demo_world))
       = 10000
   \<and> printed_best_acc (projr (train_model (demo_collab (score_model 1 (const_score 20000)) first_entry)
         (demo_args 2 1 False)
         (demo_loaders (demo_loader [([0], [[1]])] 1) (demo_loader [([0], [[1]])] 1)) demo_world))
       = Fin 0"
proof -
  let ?cb = "demo_collab (score_model 1 (const_score 20000)) first_entry"
  let ?a = "demo_args 2 1 False"
  let ?dl = "demo_loaders (demo_loader [([0], [[1]])] 1) (demo_loader [([0], [[1]])] 1)"
  let ?run = "train_model ?cb ?a ?dl demo_world"
  have "\<not> isl ?run" by code_simp
  then have h: "?run = Inr (projr ?run)" by (rule projr_collapse)
  have l: "h_loss (ret_val (projr ?run)) = [20000, 20000]" by code_simp
  then have big: "\<forall>l \<in> set (h_loss (ret_val (projr ?run))). 10000 \<le> l" by simp
  have v: "weights (ts_model (projr (run_epochs ?cb ?a ?dl [0, 1] (init_state demo_world)))) = 2"
    by code_simp
  from sentinel_keeps_initial_weights [OF h big] h l v show ?thesis
    by (simp add: demo_world_def)
qed

subsection \<open>Empty loaders and datasets\<close>

lemma run_phase_empty:
  assumes "dataset_len (dl ph) = 0 \<or> batches (dl ph) e = []"
  shows "run_phase cb a dl e ph st =
     (case run_batches cb a ph (batches (dl ph) e)
             (init_acc (set_mode cb ph (ts_model st)) (prof st)) of
        Inl err \<Rightarrow> Inl err
      | Inr acc \<Rightarrow> Inl (if dataset_len (dl ph) = 0 then ZeroDivisionError else AttributeError))"
proof (cases "dataset_len (dl ph) = 0")
  case True
  then show ?thesis
    by (simp add: run_phase_def end_phase_def split: sum.splits)
next
  case False
  with assms have "batches (dl ph) e = []" by simp
  with False show ?thesis
    by (simp add: run_phase_def end_phase_def init_acc_def)
qed

lemma run_phase_empty_isl:
  assumes "dataset_len (dl ph) = 0 \<or> batches (dl ph) e = []"
  shows "isl (run_phase cb a dl e ph st)"
  unfolding run_phase_empty [where dl = dl and ph = ph and e = e, OF assms]
  by (simp split: sum.splits)

lemma run_epoch_empty_isl:
  assumes "dataset_len (dl ph) = 0 \<or> batches (dl ph) e = []"
  shows "isl (run_epoch cb a dl e st)"
proof (cases ph)
  case Train
  with run_phase_empty_isl [where dl = dl and ph = ph and e = e and cb = cb and a = a and st = st, OF assms] show ?thesis
    by (auto simp: run_epoch_def split: sum.splits)
next
  case Val
  show ?thesis
  proof (cases "run_phase cb a dl e Train st")
    case (Inl err)
    then show ?thesis by (simp add: run_epoch_def)
  next
    case (Inr st1)
    with Val run_phase_empty_isl [where dl = dl and ph = ph and e = e and cb = cb and a = a and st = st1, OF assms] show ?thesis
      by (auto simp: run_epoch_def split: sum.splits)
  qed
qed

lemma run_epochs_fail:
  "e \<in> set es \<Longrightarrow> \<forall>st. isl (run_epoch cb a dl e st) \<Longrightarrow> isl (run_epochs cb a dl es st)"
proof (induction es arbitrary: st)
  case Nil
  then show ?case by simp
next
  case (Cons x es)
  show ?case
  proof (cases "run_epoch cb a dl x st")
    case (Inl err)
    then show ?thesis by simp
  next
    case (Inr st1)
    with Cons.prems have "e \<noteq> x"
      by (metis sum.disc(2))
    with Cons.prems(1) have "e \<in> set es" by simp
    from Cons.IH [OF this Cons.prems(2)] Inr show ?thesis by simp
  qed
qed

text \<open>
  C8, as the code has it. Nothing is handled. A phase whose dataset is empty or whose
  loader yields no batch fails once its batches are through: with ZeroDivisionError at the
  division for \<open>epoch_loss\<close> when the dataset is empty, and otherwise, with no batch,
  with AttributeError at \<^verbatim>\<open>running_corrects.double()\<close>, the counter still being the
  Python integer 0. A run that has such a phase in one of its epochs fails.
\<close>

theorem empty_phase_fails:
  assumes "dataset_len (dataloaders ph) = 0 \<or> batches (dataloaders ph) e = []"
  shows "run_phase cb a dataloaders e ph st =
           (case run_batches cb a ph (batches (dataloaders ph) e)
                   (init_acc (set_mode cb ph (ts_model st)) (prof st)) of
              Inl err \<Rightarrow> Inl err
            | Inr acc \<Rightarrow>
                Inl (if dataset_len (dataloaders ph) = 0 then ZeroDivisionError else AttributeError))
     \<and> (e < nat (num_epochs a) \<longrightarrow> (\<exists>err. train_model cb a dataloaders s = Inl err))"
proof -
  have "\<exists>err. train_model cb a dataloaders s = Inl err" if "e < nat (num_epochs a)"
  proof -
    from that have "e \<in> set [0..<nat (num_epochs a)]" by simp
    moreover have "\<forall>st. isl (run_epoch cb a dataloaders e st)"
      using run_epoch_empty_isl [where dl = dataloaders and ph = ph and e = e, OF assms] by blast
    ultimately have "isl (run_epochs cb a dataloaders [0..<nat (num_epochs a)] (init_state s))"
      by (rule run_epochs_fail)
    then show ?thesis
      by (cases "run_epochs cb a dataloaders [0..<nat (num_epochs a)] (init_state s)")
         (simp_all add: train_model_def split: option.splits)
  qed
  with run_phase_empty [where dl = dataloaders and ph = ph and e = e, OF assms] show ?thesis by blast
qed

theorem empty_phase_fails_witness:
  "(dataset_len (demo_loaders (demo_loader [] 4) (demo_loader [([0], [[1]])] 1) Train) = 0
      \<or> batches (demo_loaders (demo_loader [] 4) (demo_loader [([0], [[1]])] 1) Train) 0 = [])
   \<and> (0::nat) < nat (num_epochs (demo_args 1 1 False))
   \<and> run_phase (demo_collab (score_model 1 (const_score (9/10))) first_entry) (demo_args 1 1 False)
        (demo_loaders (demo_loader [] 4) (demo_loader [([0], [[1]])] 1)) 0 Train
        (init_state demo_world) = Inl AttributeError
   \<and> train_model (demo_collab (score_model 1 (const_score (9/10))) first_entry) (demo_args 1 1 False)
        (demo_loaders (demo_loader [] 4) (demo_loader [([0], [[1]])] 1)) demo_world
       = Inl AttributeError"
proof -
  let ?cb = "demo_collab (score_model 1 (const_score (9/10))) first_entry"
  let ?a = "demo_args 1 1 False"
  let ?dl = "demo_loaders (demo_loader [] 4) (demo_loader [([0], [[1]])] 1)"
  have b: "dataset_len (?dl Train) = 0 \<or> batches (?dl Train) 0 = []"
    by (simp add: demo_loader_def)
  have n: "(0::nat) < nat (num_epochs ?a)" by (simp add: demo_args_def)
  have p: "run_phase ?cb ?a ?dl 0 Train (init_state demo_world) = Inl AttributeError"
    by code_simp
  have t: "train_model ?cb ?a ?dl demo_world = Inl AttributeError"
    by code_simp
  from empty_phase_fails [where dataloaders = ?dl and ph = Train and e = 0 and cb = ?cb and a = ?a
      and st = "init_state demo_world" and s = demo_world, OF b] b n p t
  show ?thesis by simp
qed

text \<open>
  C8 as stated fails twice. With \<open>num_epochs = 0\<close> and empty loaders the run returns
  normally; and with one epoch, loaders that yield no batch and a dataset of size 4, the
  failure is not the division (0.0 / 4 is fine) but the AttributeError.
\<close>

theorem empty_loader_no_division_failure:
  "train_model (demo_collab (score_model 1 (const_score (9/10))) first_entry) (demo_args 0 1 False)
        (demo_loaders (demo_loader [] 0) (demo_loader [] 0)) demo_world
     = Inr \<lparr>ret_model = demo_world, ret_prof = None,
            ret_val = \<lparr>h_acc = [], h_loss = [], h_targets = [], h_outputs = []\<rparr>,
            ret_train = \<lparr>h_acc = [], h_loss = [], h_targets = [], h_outputs = []\<rparr>,
            printed_best_acc = Fin 0, printed_best_loss = 10000\<rparr>
   \<and> train_model (demo_collab (score_model 1 (const_score (9/10))) first_entry) (demo_args 1 1 False)
        (demo_loaders (demo_loader [] 4) (demo_loader [] 4)) demo_world
     = Inl AttributeError"
proof -
  have "train_model (demo_collab (score_model 1 (const_score (9/10))) first_entry)
        (demo_args 0 1 False) (demo_loaders (demo_loader [] 0) (demo_loader [] 0)) demo_world
     = Inr \<lparr>ret_model = demo_world, ret_prof = None,
            ret_val = \<lparr>h_acc = [], h_loss = [], h_targets = [], h_outputs = []\<rparr>,
            ret_train = \<lparr>h_acc = [], h_loss = [], h_targets = [], h_outputs = []\<rparr>,
            printed_best_acc = Fin 0, printed_best_loss = 10000\<rparr>"
    by (simp add: train_model_def init_state_def demo_args_def demo_world_def demo_loader_def)
  moreover have "train_model (demo_collab (score_model 1 (const_score (9/10))) first_entry)
        (demo_args 1 1 False) (demo_loaders (demo_loader [] 4) (demo_loader [] 4)) demo_world
     = Inl AttributeError"
    by code_simp
  ultimately show ?thesis by simp
qed

end
